theory Spec2Isabelle
  imports Main "HOL-Library.Word" "HOL-Library.Sublist"
begin

section \<open>Common values\<close>

text \<open>
  Python exceptions are values of \<open>error\<close>; a method that may raise returns
  \<open>error + 'a\<close> (\<open>Inl\<close> is the raise) together with the state it leaves behind.
  \<open>NameError\<close> carries the identifier that the interpreter could not resolve.
\<close>

datatype error =
    RuntimeError string
  | SecurityException string
  | NameError string
  | CodecError string

type_synonym byte = "8 word"
type_synonym bytes = "byte list"

text \<open>
  Modelled from the spec: \<open>pyndn.name.Name\<close> is not among the source files. A name is a
  sequence of components and exposes a monotonically increasing change counter that every
  in-place mutation (such as \<open>append\<close>) advances.
\<close>

record Name =
  components :: "string list"
  nameChangeCount :: int

definition Name_of_components :: "string list \<Rightarrow> Name" where
  "Name_of_components cs = \<lparr>components = cs, nameChangeCount = 0\<rparr>"

definition Name_copy :: "Name \<Rightarrow> Name" where
  "Name_copy n = Name_of_components (components n)"

definition Name_append :: "Name \<Rightarrow> string \<Rightarrow> Name" where
  "Name_append n c = n\<lparr>components := components n @ [c], nameChangeCount := nameChangeCount n + 1\<rparr>"

section \<open>security/identity/identity\_storage.py\<close>

subsection \<open>Module namespace\<close>

text \<open>
  The module imports \<open>math\<close>, \<open>Common\<close> and \<open>SecurityException\<close> and defines the class
  \<open>IdentityStorage\<close>. Two method bodies look up further identifiers in module scope:
  \<open>Name\<close> (in \<open>getNewKeyName\<close>) and \<open>getDefaultCertificateNameForKey\<close> called without
  \<open>self.\<close> (in \<open>getDefaultCertificateNameForIdentity\<close>). The record holds what module
  scope binds these two identifiers to; \<open>identity_storage_globals\<close> is the module as written,
  which binds neither.
\<close>

record 's module_globals =
  global_Name :: "(Name \<Rightarrow> Name) option"
  global_getDefaultCertificateNameForKey :: "('s \<Rightarrow> Name \<Rightarrow> (error + Name) \<times> 's) option"

definition identity_storage_globals :: "'s module_globals" where
  "identity_storage_globals =
     \<lparr>global_Name = None, global_getDefaultCertificateNameForKey = None\<rparr>"

subsection \<open>The abstract methods of the base class\<close>

text \<open>
  \<open>'s\<close> is the state of the storage object. Each body is a single \<open>raise RuntimeError\<close>
  with the message of the source (three of them name \<open>doesIdentityExist\<close>).
\<close>

definition doesIdentityExist :: "'s \<Rightarrow> Name \<Rightarrow> (error + bool) \<times> 's" where
  "doesIdentityExist s identityName =
     (Inl (RuntimeError ''doesIdentityExist is not implemented''), s)"

definition addIdentity :: "'s \<Rightarrow> Name \<Rightarrow> (error + unit) \<times> 's" where
  "addIdentity s identityName =
     (Inl (RuntimeError ''doesIdentityExist is not implemented''), s)"

definition revokeIdentity :: "'s \<Rightarrow> (error + bool) \<times> 's" where
  "revokeIdentity s = (Inl (RuntimeError ''doesIdentityExist is not implemented''), s)"

definition doesKeyExist :: "'s \<Rightarrow> Name \<Rightarrow> (error + bool) \<times> 's" where
  "doesKeyExist s keyName = (Inl (RuntimeError ''doesKeyExist is not implemented''), s)"

definition addKey :: "'s \<Rightarrow> Name \<Rightarrow> int \<Rightarrow> bytes option \<Rightarrow> (error + unit) \<times> 's" where
  "addKey s keyName keyType publicKeyDer =
     (Inl (RuntimeError ''addKey is not implemented''), s)"

definition getKey :: "'s \<Rightarrow> Name \<Rightarrow> (error + bytes option) \<times> 's" where
  "getKey s keyName = (Inl (RuntimeError ''getKey is not implemented''), s)"

definition activateKey :: "'s \<Rightarrow> Name \<Rightarrow> (error + unit) \<times> 's" where
  "activateKey s keyName = (Inl (RuntimeError ''activateKey is not implemented''), s)"

definition deactivateKey :: "'s \<Rightarrow> Name \<Rightarrow> (error + unit) \<times> 's" where
  "deactivateKey s keyName = (Inl (RuntimeError ''deactivateKey is not implemented''), s)"

definition doesCertificateExist :: "'s \<Rightarrow> Name \<Rightarrow> (error + bool) \<times> 's" where
  "doesCertificateExist s certificateName =
     (Inl (RuntimeError ''doesCertificateExist is not implemented''), s)"

definition addCertificate :: "'s \<Rightarrow> 'c \<Rightarrow> (error + unit) \<times> 's" where
  "addCertificate s certificate =
     (Inl (RuntimeError ''addCertificate is not implemented''), s)"

definition getCertificate :: "'s \<Rightarrow> Name \<Rightarrow> bool \<Rightarrow> (error + 'c option) \<times> 's" where
  "getCertificate s certificateName allowAny =
     (Inl (RuntimeError ''getCertificate is not implemented''), s)"

definition getDefaultIdentity :: "'s \<Rightarrow> (error + Name) \<times> 's" where
  "getDefaultIdentity s = (Inl (RuntimeError ''getDefaultIdentity is not implemented''), s)"

definition getDefaultKeyNameForIdentity :: "'s \<Rightarrow> Name \<Rightarrow> (error + Name) \<times> 's" where
  "getDefaultKeyNameForIdentity s identityName =
     (Inl (RuntimeError ''getDefaultKeyNameForIdentity is not implemented''), s)"

definition getDefaultCertificateNameForKey :: "'s \<Rightarrow> Name \<Rightarrow> (error + Name) \<times> 's" where
  "getDefaultCertificateNameForKey s keyName =
     (Inl (RuntimeError ''getDefaultCertificateNameForKey is not implemented''), s)"

definition setDefaultIdentity :: "'s \<Rightarrow> Name \<Rightarrow> (error + unit) \<times> 's" where
  "setDefaultIdentity s identityName =
     (Inl (RuntimeError ''setDefaultIdentity is not implemented''), s)"

definition setDefaultKeyNameForIdentity ::
  "'s \<Rightarrow> Name \<Rightarrow> Name option \<Rightarrow> (error + unit) \<times> 's" where
  "setDefaultKeyNameForIdentity s keyName identityNameCheck =
     (Inl (RuntimeError ''setDefaultKeyNameForIdentity is not implemented''), s)"

definition setDefaultCertificateNameForKey ::
  "'s \<Rightarrow> Name \<Rightarrow> Name \<Rightarrow> (error + unit) \<times> 's" where
  "setDefaultCertificateNameForKey s keyName certificateName =
     (Inl (RuntimeError ''setDefaultCertificateNameForKey is not implemented''), s)"

text \<open>
  A call outcome is a not-implemented failure from state \<open>s\<close> when it is a raise of
  \<open>RuntimeError\<close> whose message ends in ``is not implemented'' and the state is still \<open>s\<close>.
\<close>

fun not_implemented_from :: "'s \<Rightarrow> (error + 'a) \<times> 's \<Rightarrow> bool" where
  "not_implemented_from s (Inl (RuntimeError msg), s') =
     (s' = s \<and> suffix '' is not implemented'' msg)"
| "not_implemented_from s other = False"

subsection \<open>The implemented methods\<close>

text \<open>
  \<open>decimal\<close> is the digit string that \<open>repr(math.floor(x)).replace(".0", "")\<close> yields for a
  whole number of seconds (as long as \<open>repr\<close> does not switch to exponent notation).
\<close>

fun decimal :: "nat \<Rightarrow> string" where
  "decimal n =
     (if n < 10 then [''0123456789'' ! n]
      else decimal (n div 10) @ [''0123456789'' ! (n mod 10)])"

declare decimal.simps [simp del]

text \<open>
  \<open>self_doesKeyExist\<close> is what \<open>self.doesKeyExist\<close> dispatches to (a subclass overrides it);
  \<open>nowMilliseconds\<close> is the value of \<open>Common.getNowMilliseconds()\<close>, in whole milliseconds.
  The statements run in the order of the source: the key id string is built first, then
  \<open>Name\<close> is looked up in module scope, and only then is \<open>self.doesKeyExist\<close> called.
\<close>

definition getNewKeyName ::
  "'s module_globals \<Rightarrow> ('s \<Rightarrow> Name \<Rightarrow> (error + bool) \<times> 's) \<Rightarrow> nat \<Rightarrow>
   's \<Rightarrow> Name \<Rightarrow> bool \<Rightarrow> (error + Name) \<times> 's" where
  "getNewKeyName g self_doesKeyExist nowMilliseconds s identityName useKsk =
     (let nowString = decimal (nowMilliseconds div 1000);
          keyIdStr = (if useKsk then ''KSK-'' @ nowString else ''DSK-'' @ nowString)
      in case global_Name g of
           None \<Rightarrow> (Inl (NameError ''Name''), s)
         | Some Name_class \<Rightarrow>
             (let keyName = Name_append (Name_class identityName) keyIdStr
              in case self_doesKeyExist s keyName of
                   (Inl e, s') \<Rightarrow> (Inl e, s')
                 | (Inr exists, s') \<Rightarrow>
                     if exists then (Inl (SecurityException ''Key name already exists''), s')
                     else (Inr keyName, s')))"

text \<open>
  \<open>self_getDefaultKeyNameForIdentity\<close> is what \<open>self.getDefaultKeyNameForIdentity\<close>
  dispatches to. The second call of the source has no \<open>self.\<close>, so it resolves in module
  scope.
\<close>

definition getDefaultCertificateNameForIdentity ::
  "'s module_globals \<Rightarrow> ('s \<Rightarrow> Name \<Rightarrow> (error + Name) \<times> 's) \<Rightarrow>
   's \<Rightarrow> Name \<Rightarrow> (error + Name) \<times> 's" where
  "getDefaultCertificateNameForIdentity g self_getDefaultKeyNameForIdentity s identityName =
     (case self_getDefaultKeyNameForIdentity s identityName of
        (Inl e, s') \<Rightarrow> (Inl e, s')
      | (Inr keyName, s') \<Rightarrow>
          (case global_getDefaultCertificateNameForKey g of
             None \<Rightarrow> (Inl (NameError ''getDefaultCertificateNameForKey''), s')
           | Some f \<Rightarrow> f s' keyName))"

text \<open>
  A small in-memory backend used to exercise the methods above: the state is the list of
  stored key names, with one default key per identity taken from an association list.
\<close>

definition listStore_doesKeyExist :: "Name list \<Rightarrow> Name \<Rightarrow> (error + bool) \<times> Name list" where
  "listStore_doesKeyExist s keyName = (Inr (components keyName \<in> set (map components s)), s)"

definition listStore_getDefaultKeyNameForIdentity ::
  "Name list \<Rightarrow> Name \<Rightarrow> (error + Name) \<times> Name list" where
  "listStore_getDefaultKeyNameForIdentity s identityName =
     (Inr (Name_append (Name_copy identityName) ''KSK-1''), s)"

definition listStore_getDefaultCertificateNameForKey ::
  "Name list \<Rightarrow> Name \<Rightarrow> (error + Name) \<times> Name list" where
  "listStore_getDefaultCertificateNameForKey s keyName =
     (Inr (Name_append (Name_copy keyName) ''ID-CERT''), s)"

section \<open>data.py\<close>

subsection \<open>Collaborators of the Data class\<close>

text \<open>
  Modelled from the spec: \<open>pyndn.util.Blob\<close> and \<open>SignedBlob\<close> are not among the source
  files. A blob is an immutable byte sequence whose absence (\<open>isNull\<close>) differs from the
  empty sequence; a signed blob adds the two offsets of the signed range. A blob is built
  with an explicit copy-on-construct option, so the array behind it is either a private
  copy (\<open>Owned\<close>) or the caller's own array (\<open>Shared\<close>: its address and the bytes it holds
  now). \<open>buf()\<close> reads the bytes.

  \<open>buffer_arg\<close> is an argument that is either already a \<open>Blob\<close> or some other array;
  \<open>IsArray a bs\<close> is the caller's array at address \<open>a\<close>, holding \<open>bs\<close> when the call is
  made. \<open>Blob(x, copy)\<close> takes the array of \<open>x\<close> as it is when \<open>x\<close> is a blob, and otherwise
  copies the array or shares it as \<open>copy\<close> says. \<open>array_written a bs\<close> is what a blob
  becomes when the caller later stores \<open>bs\<close> in its array at \<open>a\<close>: only a blob that shares
  that array is affected.
\<close>

type_synonym addr = nat

datatype array_ref = Owned bytes | Shared addr bytes

type_synonym Blob = "array_ref option"

fun array_bytes :: "array_ref \<Rightarrow> bytes" where
  "array_bytes (Owned bs) = bs"
| "array_bytes (Shared a bs) = bs"

definition Blob_buf :: "Blob \<Rightarrow> bytes option" where
  "Blob_buf b = map_option array_bytes b"

datatype buffer_arg = IsBlob Blob | IsArray addr bytes

fun Blob_ctor :: "buffer_arg \<Rightarrow> bool \<Rightarrow> Blob" where
  "Blob_ctor (IsBlob b) copy = b"
| "Blob_ctor (IsArray a bs) copy = (if copy then Some (Owned bs) else Some (Shared a bs))"

fun array_written :: "addr \<Rightarrow> bytes \<Rightarrow> Blob \<Rightarrow> Blob" where
  "array_written a bs (Some (Shared a' old)) =
     (if a' = a then Some (Shared a bs) else Some (Shared a' old))"
| "array_written a bs (Some (Owned own)) = Some (Owned own)"
| "array_written a bs None = None"

record SignedBlob =
  blob :: Blob
  signedPortionBeginOffset :: int
  signedPortionEndOffset :: int

definition SignedBlob_ctor :: "Blob \<Rightarrow> int \<Rightarrow> int \<Rightarrow> SignedBlob" where
  "SignedBlob_ctor b beginOffset endOffset =
     \<lparr>blob = b, signedPortionBeginOffset = beginOffset, signedPortionEndOffset = endOffset\<rparr>"

definition SignedBlob_null :: SignedBlob where
  "SignedBlob_null = SignedBlob_ctor None 0 0"

definition isNull :: "SignedBlob \<Rightarrow> bool" where
  "isNull sb = (blob sb = None)"

text \<open>
  Modelled from the spec: \<open>pyndn.meta_info.MetaInfo\<close> is not among the source files. It
  holds content-type and freshness metadata and, like a name, its own change counter.
  \<open>MetaInfo_default\<close> is \<open>MetaInfo()\<close>, \<open>MetaInfo_copy m\<close> is \<open>MetaInfo(m)\<close>.
\<close>

record MetaInfo =
  contentType :: int
  freshnessPeriod :: "int option"
  metaInfoChangeCount :: int

definition MetaInfo_default :: MetaInfo where
  "MetaInfo_default = \<lparr>contentType = 0, freshnessPeriod = None, metaInfoChangeCount = 0\<rparr>"

definition MetaInfo_copy :: "MetaInfo \<Rightarrow> MetaInfo" where
  "MetaInfo_copy m = m\<lparr>metaInfoChangeCount := 0\<rparr>"

text \<open>
  Modelled from the spec: \<open>pyndn.util.ChangeCounter\<close> is not among the source files. It
  wraps a value that has a change counter of its own (read by \<open>cc\<close>) and remembers the
  counter value it saw last. \<open>set\<close> replaces the wrapped value outright and, as the
  constructor does, starts from the counter of the value it now holds. \<open>checkChanged\<close>
  compares the value's counter with the remembered one; if they differ it remembers the
  new one and answers true, otherwise it answers false.
\<close>

record 'a ChangeCounter =
  target :: 'a
  lastChangeCount :: int

definition ChangeCounter_init :: "('a \<Rightarrow> int) \<Rightarrow> 'a \<Rightarrow> 'a ChangeCounter" where
  "ChangeCounter_init cc v = \<lparr>target = v, lastChangeCount = cc v\<rparr>"

definition ChangeCounter_set :: "('a \<Rightarrow> int) \<Rightarrow> 'a ChangeCounter \<Rightarrow> 'a \<Rightarrow> 'a ChangeCounter" where
  "ChangeCounter_set cc t v = t\<lparr>target := v, lastChangeCount := cc v\<rparr>"

definition checkChanged :: "('a \<Rightarrow> int) \<Rightarrow> 'a ChangeCounter \<Rightarrow> bool \<times> 'a ChangeCounter" where
  "checkChanged cc t =
     (if lastChangeCount t \<noteq> cc (target t)
      then (True, t\<lparr>lastChangeCount := cc (target t)\<rparr>)
      else (False, t))"

text \<open>
  An argument of \<open>setName\<close> or of the constructor is either a \<open>Name\<close> object, which is
  stored as it is, or anything else (a URI string, \<open>None\<close>), which \<open>Name(...)\<close> turns into
  a new name with the given components.
\<close>

datatype name_arg = IsName Name | NotName "string list"

fun Name_ctor :: "name_arg \<Rightarrow> Name" where
  "Name_ctor (IsName n) = n"
| "Name_ctor (NotName cs) = Name_of_components cs"

subsection \<open>The Data class\<close>

text \<open>
  The fields of the source without their leading underscore; \<open>'wf\<close> is the identity of a
  wire format object, \<open>None\<close> in \<open>defaultWireEncodingFormat\<close> is Python's \<open>None\<close>.
\<close>

record 'wf Data =
  name :: "Name ChangeCounter"
  metaInfo :: "MetaInfo ChangeCounter"
  content :: Blob
  defaultWireEncoding :: SignedBlob
  defaultWireEncodingFormat :: "'wf option"
  getDefaultWireEncodingChangeCount :: int
  changeCount :: int

definition Data_init :: "name_arg \<Rightarrow> 'wf Data" where
  "Data_init nm =
     \<lparr>name = ChangeCounter_init nameChangeCount (Name_ctor nm),
      metaInfo = ChangeCounter_init metaInfoChangeCount MetaInfo_default,
      content = None,
      defaultWireEncoding = SignedBlob_null,
      defaultWireEncodingFormat = None,
      getDefaultWireEncodingChangeCount = 0,
      changeCount = 0\<rparr>"

definition getName :: "'wf Data \<Rightarrow> Name" where
  "getName d = target (name d)"

definition getMetaInfo :: "'wf Data \<Rightarrow> MetaInfo" where
  "getMetaInfo d = target (metaInfo d)"

definition getContent :: "'wf Data \<Rightarrow> Blob" where
  "getContent d = content d"

definition getDefaultWireEncodingFormat :: "'wf Data \<Rightarrow> 'wf option" where
  "getDefaultWireEncodingFormat d = defaultWireEncodingFormat d"

definition setName :: "'wf Data \<Rightarrow> name_arg \<Rightarrow> 'wf Data" where
  "setName d nm =
     (let d1 = d\<lparr>name := ChangeCounter_set nameChangeCount (name d) (Name_ctor nm)\<rparr>
      in d1\<lparr>changeCount := changeCount d1 + 1\<rparr>)"

definition setMetaInfo :: "'wf Data \<Rightarrow> MetaInfo option \<Rightarrow> 'wf Data" where
  "setMetaInfo d mi =
     (let d1 = d\<lparr>metaInfo := ChangeCounter_set metaInfoChangeCount (metaInfo d)
                   (case mi of None \<Rightarrow> MetaInfo_default | Some m \<Rightarrow> MetaInfo_copy m)\<rparr>
      in d1\<lparr>changeCount := changeCount d1 + 1\<rparr>)"

definition setContent :: "'wf Data \<Rightarrow> buffer_arg \<Rightarrow> 'wf Data" where
  "setContent d c =
     (let d1 = d\<lparr>content := (case c of IsBlob b \<Rightarrow> b | IsArray a bs \<Rightarrow> Blob_ctor c True)\<rparr>
      in d1\<lparr>changeCount := changeCount d1 + 1\<rparr>)"

definition getChangeCount :: "'wf Data \<Rightarrow> int \<times> 'wf Data" where
  "getChangeCount d =
     (let (changed1, nm) = checkChanged nameChangeCount (name d);
          (changed2, mi) = checkChanged metaInfoChangeCount (metaInfo d);
          changed = (changed2 \<or> changed1);
          d1 = d\<lparr>name := nm, metaInfo := mi\<rparr>;
          d2 = (if changed then d1\<lparr>changeCount := changeCount d1 + 1\<rparr> else d1)
      in (changeCount d2, d2))"

definition setDefaultWireEncoding :: "'wf Data \<Rightarrow> SignedBlob \<Rightarrow> 'wf option \<Rightarrow> 'wf Data" where
  "setDefaultWireEncoding d enc fmt =
     (let d1 = d\<lparr>defaultWireEncoding := enc, defaultWireEncodingFormat := fmt\<rparr>;
          (c, d2) = getChangeCount d1
      in d2\<lparr>getDefaultWireEncodingChangeCount := c\<rparr>)"

definition getDefaultWireEncoding :: "'wf Data \<Rightarrow> SignedBlob \<times> 'wf Data" where
  "getDefaultWireEncoding d =
     (let (c, d1) = getChangeCount d
      in if getDefaultWireEncodingChangeCount d1 \<noteq> c
         then (let d2 = d1\<lparr>defaultWireEncoding := SignedBlob_null,
                          defaultWireEncodingFormat := None\<rparr>;
                   (c2, d3) = getChangeCount d2;
                   d4 = d3\<lparr>getDefaultWireEncodingChangeCount := c2\<rparr>
               in (defaultWireEncoding d4, d4))
         else (defaultWireEncoding d1, d1))"

subsection \<open>The wire format\<close>

text \<open>
  Modelled from the spec: \<open>pyndn.encoding.WireFormat\<close> is not among the source files. The
  codec is an external collaborator with the contract
  \<open>encode(packet) \<rightarrow> (bytes, signedBegin, signedEnd)\<close> and
  \<open>decode(packet, bytes) \<rightarrow> (signedBegin, signedEnd)\<close>, the packet being populated as a side
  effect; either may fail with a codec error. The encoder reads the packet through
  \<open>getName\<close>, \<open>getMetaInfo\<close> and \<open>getContent\<close>, so it is a function of \<open>Data_fields\<close>, and
  the bytes it returns are a buffer of its own. A decoder that succeeds yields the three
  field values it assigns; one that fails may have applied some mutations before raising.
  The spec has every assignment go through the setters; a decoder may instead fill in the
  name and metaInfo objects it gets from \<open>getName()\<close> and \<open>getMetaInfo()\<close> in place, which
  only those objects' own counters record. \<open>assignsInPlace\<close> says which of the two a format's
  decoder does.

  \<open>DataMutation\<close> lists the ways a holder of the packet can change it: the three setters
  of the source, and the in-place change of the name or metaInfo object obtained from
  \<open>getName()\<close> or \<open>getMetaInfo()\<close> (or retained from a \<open>setName\<close> call), which advances
  that object's own change counter.
\<close>

type_synonym DataFields = "string list \<times> (int \<times> int option) \<times> bytes option"

datatype DataMutation =
    SetName name_arg
  | SetMetaInfo "MetaInfo option"
  | SetContent buffer_arg
  | MutateName "string list"
  | MutateMetaInfo int "int option"

record 'wf WireCodec =
  encodeData :: "'wf \<Rightarrow> DataFields \<Rightarrow> error + (bytes \<times> int \<times> int)"
  decodeData ::
    "'wf \<Rightarrow> bytes option \<Rightarrow> (DataMutation list \<times> error) + (DataFields \<times> int \<times> int)"
  assignsInPlace :: "'wf \<Rightarrow> bool"

definition Data_fields :: "'wf Data \<Rightarrow> DataFields" where
  "Data_fields d =
     (components (getName d),
      (contentType (getMetaInfo d), freshnessPeriod (getMetaInfo d)),
      Blob_buf (getContent d))"

definition mutateName :: "'wf Data \<Rightarrow> string list \<Rightarrow> 'wf Data" where
  "mutateName d cs =
     d\<lparr>name := (name d)\<lparr>target :=
          (target (name d))\<lparr>components := cs,
             nameChangeCount := nameChangeCount (target (name d)) + 1\<rparr>\<rparr>\<rparr>"

definition mutateMetaInfo :: "'wf Data \<Rightarrow> int \<Rightarrow> int option \<Rightarrow> 'wf Data" where
  "mutateMetaInfo d ct fp =
     d\<lparr>metaInfo := (metaInfo d)\<lparr>target :=
          (target (metaInfo d))\<lparr>contentType := ct, freshnessPeriod := fp,
             metaInfoChangeCount := metaInfoChangeCount (target (metaInfo d)) + 1\<rparr>\<rparr>\<rparr>"

fun applyMutation :: "'wf Data \<Rightarrow> DataMutation \<Rightarrow> 'wf Data" where
  "applyMutation d (SetName nm) = setName d nm"
| "applyMutation d (SetMetaInfo mi) = setMetaInfo d mi"
| "applyMutation d (SetContent c) = setContent d c"
| "applyMutation d (MutateName cs) = mutateName d cs"
| "applyMutation d (MutateMetaInfo ct fp) = mutateMetaInfo d ct fp"

fun populate :: "bool \<Rightarrow> 'wf Data \<Rightarrow> DataFields \<Rightarrow> 'wf Data" where
  "populate inPlace d (cs, (ct, fp), c) =
     setContent
       (if inPlace then mutateMetaInfo (mutateName d cs) ct fp
        else setMetaInfo (setName d (NotName cs))
               (Some \<lparr>contentType = ct, freshnessPeriod = fp, metaInfoChangeCount = 0\<rparr>))
       (IsBlob (map_option Owned c))"

declare populate.simps [simp del]

subsection \<open>wireEncode and wireDecode\<close>

text \<open>
  \<open>dflt\<close> is the value of \<open>WireFormat.getDefaultWireFormat()\<close>. The third component of the
  result of \<open>wireEncode\<close> counts the calls of \<open>wireFormat.encodeData\<close> that the call made.
\<close>

definition wireEncode ::
  "'wf WireCodec \<Rightarrow> 'wf \<Rightarrow> 'wf Data \<Rightarrow> 'wf \<Rightarrow> (error + SignedBlob) \<times> 'wf Data \<times> nat" where
  "wireEncode codec dflt d wireFormat =
     (let (cached, d1) = getDefaultWireEncoding d
      in if \<not> isNull cached \<and> getDefaultWireEncodingFormat d1 = Some wireFormat
         then (let (cached2, d2) = getDefaultWireEncoding d1 in (Inr cached2, d2, 0))
         else (case encodeData codec wireFormat (Data_fields d1) of
                 Inl err \<Rightarrow> (Inl err, d1, 1)
               | Inr (encoding, signedPortionBegin, signedPortionEnd) \<Rightarrow>
                   (let wireEncoding =
                          SignedBlob_ctor (Some (Owned encoding))
                            signedPortionBegin signedPortionEnd
                    in if wireFormat = dflt
                       then (Inr wireEncoding,
                             setDefaultWireEncoding d1 wireEncoding (Some dflt), 1)
                       else (Inr wireEncoding, d1, 1))))"

definition wireDecode ::
  "'wf WireCodec \<Rightarrow> 'wf \<Rightarrow> 'wf Data \<Rightarrow> buffer_arg \<Rightarrow> 'wf \<Rightarrow> (error + unit) \<times> 'wf Data" where
  "wireDecode codec dflt d input wireFormat =
     (let decodeBuffer = (case input of IsBlob b \<Rightarrow> Blob_buf b | IsArray a bs \<Rightarrow> Some bs)
      in case decodeData codec wireFormat decodeBuffer of
           Inl (partial, err) \<Rightarrow> (Inl err, foldl applyMutation d partial)
         | Inr (decoded, signedPortionBegin, signedPortionEnd) \<Rightarrow>
             (let d1 = populate (assignsInPlace codec wireFormat) d decoded
              in if wireFormat = dflt
                 then (Inr (),
                       setDefaultWireEncoding d1
                         (SignedBlob_ctor (Blob_ctor input True)
                            signedPortionBegin signedPortionEnd)
                         (Some dflt))
                 else (Inr (), setDefaultWireEncoding d1 SignedBlob_null None)))"

subsection \<open>Sequences of calls on one packet\<close>

datatype 'wf DataCall =
    Mutation DataMutation
  | GetChangeCount
  | GetDefaultWireEncoding
  | WireEncode 'wf
  | WireDecode buffer_arg 'wf

fun call :: "'wf WireCodec \<Rightarrow> 'wf \<Rightarrow> 'wf Data \<Rightarrow> 'wf DataCall \<Rightarrow> 'wf Data" where
  "call codec dflt d (Mutation m) = applyMutation d m"
| "call codec dflt d GetChangeCount = snd (getChangeCount d)"
| "call codec dflt d GetDefaultWireEncoding = snd (getDefaultWireEncoding d)"
| "call codec dflt d (WireEncode fmt) = fst (snd (wireEncode codec dflt d fmt))"
| "call codec dflt d (WireDecode input fmt) = snd (wireDecode codec dflt d input fmt)"

definition calls :: "'wf WireCodec \<Rightarrow> 'wf \<Rightarrow> 'wf Data \<Rightarrow> 'wf DataCall list \<Rightarrow> 'wf Data" where
  "calls codec dflt d cs = foldl (call codec dflt) d cs"

subsection \<open>A codec for tests\<close>

text \<open>
  Wire formats are numbered. The test codec handles packets with an empty name and default
  metadata: format \<open>0\<close> writes the content bytes as they are, every other format writes
  them reversed, and the whole encoding is the signed range. The decoder of format \<open>0\<close>
  assigns through the setters, the others fill the name and metaInfo objects in place.
\<close>

definition testCodec :: "nat WireCodec" where
  "testCodec =
     \<lparr>encodeData = (\<lambda>fmt (cs, mi, c).
        case c of
          None \<Rightarrow> Inl (CodecError ''no content'')
        | Some bs \<Rightarrow>
            if cs = [] \<and> mi = (0, None)
            then Inr (if fmt = 0 then bs else rev bs, 0, int (length bs))
            else Inl (CodecError ''unsupported'')),
      decodeData = (\<lambda>fmt buf.
        case buf of
          None \<Rightarrow> Inl ([], CodecError ''no input'')
        | Some bs \<Rightarrow>
            Inr (([], (0, None), Some (if fmt = 0 then bs else rev bs)), 0, int (length bs))),
      assignsInPlace = (\<lambda>fmt. fmt \<noteq> 0)\<rparr>"

definition hello :: bytes where
  "hello = [104, 101, 108, 108, 111]"

subsection \<open>Auxiliary notions\<close>

text \<open>
  The trackers are clean when neither \<open>checkChanged\<close> would report a change.
\<close>

definition trackers_clean :: "'wf Data \<Rightarrow> bool" where
  "trackers_clean d =
     (lastChangeCount (name d) = nameChangeCount (target (name d)) \<and>
      lastChangeCount (metaInfo d) = metaInfoChangeCount (target (metaInfo d)))"

text \<open>
  A packet with the empty name, default metadata and the content \<open>b"hello"\<close>, given as the
  caller's array at address \<open>7\<close>.
\<close>

definition helloPacket :: "nat Data" where
  "helloPacket = setContent (Data_init (NotName [])) (IsArray 7 hello)"

text \<open>\<open>Name\<close> bound in module scope to the class, as an import of it would do.\<close>

definition globals_with_Name :: "'s module_globals" where
  "globals_with_Name =
     \<lparr>global_Name = Some Name_copy, global_getDefaultCertificateNameForKey = None\<rparr>"

text \<open>
  Facts that hold of every packet built by the constructor and changed only through the
  calls above: the count recorded with the cache is never ahead of the change count, a
  tracker's remembered count is never ahead of its target's, and the cached format is
  \<open>None\<close> or the default format.
\<close>

definition counters_ordered :: "'wf \<Rightarrow> 'wf Data \<Rightarrow> bool" where
  "counters_ordered dflt d =
     (getDefaultWireEncodingChangeCount d \<le> changeCount d \<and>
      lastChangeCount (name d) \<le> nameChangeCount (target (name d)) \<and>
      lastChangeCount (metaInfo d) \<le> metaInfoChangeCount (target (metaInfo d)) \<and>
      defaultWireEncodingFormat d \<in> {None, Some dflt})"

text \<open>
  \<open>cache_hit fmt d\<close>: the test at the head of \<open>wireEncode(fmt)\<close> succeeds on \<open>d\<close>.
\<close>

definition cache_hit :: "'wf \<Rightarrow> 'wf Data \<Rightarrow> bool" where
  "cache_hit fmt d =
     (getDefaultWireEncodingChangeCount d = fst (getChangeCount d) \<and>
      \<not> isNull (defaultWireEncoding d) \<and>
      defaultWireEncodingFormat d = Some fmt)"

definition decodes_to ::
  "'wf WireCodec \<Rightarrow> 'wf \<Rightarrow> bytes option \<Rightarrow> DataFields \<Rightarrow> bool" where
  "decodes_to codec fmt buf f =
     (case decodeData codec fmt buf of Inl failure \<Rightarrow> False | Inr (f', b, e) \<Rightarrow> f' = f)"

definition cache_coherent :: "'wf WireCodec \<Rightarrow> 'wf \<Rightarrow> 'wf Data \<Rightarrow> bool" where
  "cache_coherent codec dflt d =
     (cache_hit dflt d \<longrightarrow>
        decodes_to codec dflt (Blob_buf (blob (defaultWireEncoding d))) (Data_fields d))"

text \<open>
  The part of the codec contract that the round trip relies on: what format \<open>fmt\<close> encodes,
  it decodes to the same field values.
\<close>

definition decode_inverts_encode :: "'wf WireCodec \<Rightarrow> 'wf \<Rightarrow> bool" where
  "decode_inverts_encode codec fmt =
     (\<forall>f bs b e. encodeData codec fmt f = Inr (bs, b, e) \<longrightarrow>
        decodes_to codec fmt (Some bs) f)"

text \<open>
  \<open>helloPacket\<close> encoded with format \<open>0\<close> as the default and then given new content: its
  cached encoding is out of date.
\<close>

definition stalePacket :: "nat Data" where
  "stalePacket =
     setContent (fst (snd (wireEncode testCodec 0 helloPacket 0))) (IsArray 8 [1, 2, 3])"

text \<open>
  \<open>helloPacket\<close> encoded while format \<open>1\<close> was the default wire format: its cache holds
  the format-\<open>1\<close> encoding.
\<close>

definition oldDefaultPacket :: "nat Data" where
  "oldDefaultPacket = fst (snd (wireEncode testCodec 1 helloPacket 1))"

section \<open>Properties of IdentityStorage\<close>

text \<open>
  C8: each of the seventeen operations that the base class leaves unimplemented raises a
  not-implemented error when invoked on the base class, for every argument, returning no
  value and leaving the state as it was.
\<close>

theorem base_operations_not_implemented:
  "not_implemented_from s (doesIdentityExist s identityName) \<and>
   not_implemented_from s (addIdentity s identityName) \<and>
   not_implemented_from s (revokeIdentity s) \<and>
   not_implemented_from s (doesKeyExist s keyName) \<and>
   not_implemented_from s (addKey s keyName keyType publicKeyDer) \<and>
   not_implemented_from s (getKey s keyName) \<and>
   not_implemented_from s (activateKey s keyName) \<and>
   not_implemented_from s (deactivateKey s keyName) \<and>
   not_implemented_from s (doesCertificateExist s certificateName) \<and>
   not_implemented_from s (addCertificate s certificate) \<and>
   not_implemented_from s
     (getCertificate s certificateName allowAny :: (error + 'c option) \<times> 's) \<and>
   not_implemented_from s (getDefaultIdentity s) \<and>
   not_implemented_from s (getDefaultKeyNameForIdentity s identityName) \<and>
   not_implemented_from s (getDefaultCertificateNameForKey s keyName) \<and>
   not_implemented_from s (setDefaultIdentity s identityName) \<and>
   not_implemented_from s (setDefaultKeyNameForIdentity s keyName identityNameCheck) \<and>
   not_implemented_from s (setDefaultCertificateNameForKey s keyName certificateName)"
  unfolding doesIdentityExist_def addIdentity_def revokeIdentity_def doesKeyExist_def
    addKey_def getKey_def activateKey_def deactivateKey_def doesCertificateExist_def
    addCertificate_def getCertificate_def getDefaultIdentity_def
    getDefaultKeyNameForIdentity_def getDefaultCertificateNameForKey_def
    setDefaultIdentity_def setDefaultKeyNameForIdentity_def
    setDefaultCertificateNameForKey_def
  by (simp add: suffix_def)

text \<open>
  C3: the claim expects \<open>/alice/KSK-1400000000\<close> for the identity \<open>/alice\<close> at
  1400000000123 ms with no key stored. The module as written cannot resolve \<open>Name\<close>, so the
  call raises \<open>NameError\<close>; with \<open>Name\<close> bound to the class the same body returns the
  expected name.
\<close>

theorem getNewKeyName_raises_NameError:
  "getNewKeyName identity_storage_globals listStore_doesKeyExist 1400000000123 []
     (Name_of_components [''alice'']) True = (Inl (NameError ''Name''), []) \<and>
   getNewKeyName globals_with_Name listStore_doesKeyExist 1400000000123 []
     (Name_of_components [''alice'']) True =
     (Inr \<lparr>components = [''alice'', ''KSK-1400000000''], nameChangeCount = 1\<rparr>, [])"
  by (simp add: getNewKeyName_def identity_storage_globals_def globals_with_Name_def
      listStore_doesKeyExist_def Name_copy_def Name_append_def Name_of_components_def
      decimal.simps)

text \<open>
  C4: on a backend whose default key of \<open>/alice\<close> is \<open>/alice/KSK-1\<close>, the composition
  named by the claim is \<open>/alice/KSK-1/ID-CERT\<close>, but the method raises \<open>NameError\<close>: the
  second call is written without \<open>self.\<close> and the module defines no function of that name.
\<close>

theorem getDefaultCertificateNameForIdentity_raises_NameError:
  "getDefaultCertificateNameForIdentity identity_storage_globals
      listStore_getDefaultKeyNameForIdentity [] (Name_of_components [''alice''])
    = (Inl (NameError ''getDefaultCertificateNameForKey''), []) \<and>
   (case listStore_getDefaultKeyNameForIdentity [] (Name_of_components [''alice'']) of
      (Inl e, s') \<Rightarrow> (Inl e, s')
    | (Inr keyName, s') \<Rightarrow> listStore_getDefaultCertificateNameForKey s' keyName)
    = (Inr \<lparr>components = [''alice'', ''KSK-1'', ''ID-CERT''], nameChangeCount = 1\<rparr>, [])"
  by (simp add: getDefaultCertificateNameForIdentity_def identity_storage_globals_def
      listStore_getDefaultKeyNameForIdentity_def listStore_getDefaultCertificateNameForKey_def
      Name_copy_def Name_append_def Name_of_components_def)

text \<open>
  C7: \<open>getNewKeyName\<close> does not change the storage state. In the module as written this holds
  for every backend, since the call fails before \<open>self.doesKeyExist\<close> is reached; whatever
  module scope binds \<open>Name\<close> to, it holds as soon as the backend's \<open>doesKeyExist\<close> is
  read-only in the state the call starts from, that check being the only storage operation
  of the body.
\<close>

theorem getNewKeyName_no_mutation:
  "snd (getNewKeyName identity_storage_globals self_doesKeyExist now s identityName useKsk) = s \<and>
   ((\<forall>k. snd (self_doesKeyExist s k) = s) \<longrightarrow>
      snd (getNewKeyName g self_doesKeyExist now s identityName useKsk) = s)"
proof (intro conjI impI)
  show "snd (getNewKeyName identity_storage_globals self_doesKeyExist now s identityName useKsk) = s"
    by (simp add: getNewKeyName_def identity_storage_globals_def)
next
  assume readonly: "\<forall>k. snd (self_doesKeyExist s k) = s"
  show "snd (getNewKeyName g self_doesKeyExist now s identityName useKsk) = s"
  proof (cases "global_Name g")
    case None
    then show ?thesis by (simp add: getNewKeyName_def)
  next
    case (Some Name_class)
    define keyName where "keyName = Name_append (Name_class identityName)
       ((if useKsk then ''KSK-'' else ''DSK-'') @ decimal (now div 1000))"
    from readonly have "snd (self_doesKeyExist s keyName) = s" by simp
    then obtain r where r: "self_doesKeyExist s keyName = (r, s)"
      by (cases "self_doesKeyExist s keyName") simp
    have "getNewKeyName g self_doesKeyExist now s identityName useKsk =
       (case r of
          Inl e \<Rightarrow> (Inl e, s)
        | Inr ex \<Rightarrow> if ex then (Inl (SecurityException ''Key name already exists''), s)
                    else (Inr keyName, s))"
      using Some r
      by (cases useKsk) (simp_all add: getNewKeyName_def keyName_def split: sum.splits)
    then show ?thesis by (simp split: sum.splits)
  qed
qed

theorem getNewKeyName_no_mutation_witness:
  "(\<forall>k. snd (listStore_doesKeyExist [Name_of_components [''alice'', ''KSK-1400000000'']] k)
        = [Name_of_components [''alice'', ''KSK-1400000000'']]) \<and>
   getNewKeyName globals_with_Name listStore_doesKeyExist 1400000000123
     [Name_of_components [''alice'', ''KSK-1400000000'']] (Name_of_components [''alice'']) True
     = (Inl (SecurityException ''Key name already exists''),
        [Name_of_components [''alice'', ''KSK-1400000000'']]) \<and>
   snd (getNewKeyName globals_with_Name listStore_doesKeyExist 1400000000123
     [Name_of_components [''alice'', ''KSK-1400000000'']] (Name_of_components [''alice'']) True)
     = [Name_of_components [''alice'', ''KSK-1400000000'']]"
  using getNewKeyName_no_mutation
    [of listStore_doesKeyExist 1400000000123
        "[Name_of_components [''alice'', ''KSK-1400000000'']]"
        "Name_of_components [''alice'']" True globals_with_Name]
  by (simp add: listStore_doesKeyExist_def getNewKeyName_def globals_with_Name_def
      Name_copy_def Name_append_def Name_of_components_def decimal.simps)

section \<open>Properties of Data\<close>

subsection \<open>The change count and the cache getters\<close>

lemma getChangeCount_expl:
  "getChangeCount d =
    (if trackers_clean d then (changeCount d, d)
     else (changeCount d + 1,
         d\<lparr>name := (name d)\<lparr>lastChangeCount := nameChangeCount (target (name d))\<rparr>,
           metaInfo := (metaInfo d)\<lparr>lastChangeCount := metaInfoChangeCount (target (metaInfo d))\<rparr>,
           changeCount := changeCount d + 1\<rparr>))"
  by (auto simp add: getChangeCount_def checkChanged_def Let_def trackers_clean_def)

lemma getChangeCount_fst: "fst (getChangeCount d) = changeCount (snd (getChangeCount d))"
  by (simp add: getChangeCount_expl)

lemma getChangeCount_clean: "trackers_clean (snd (getChangeCount d))"
  by (simp add: getChangeCount_expl trackers_clean_def)

lemma getChangeCount_idem:
  "getChangeCount (snd (getChangeCount d)) = (fst (getChangeCount d), snd (getChangeCount d))"
  using getChangeCount_clean[of d] getChangeCount_fst[of d]
  by (simp add: getChangeCount_expl[of "snd (getChangeCount d)"])


lemma getChangeCount_cache_upd:
  "getChangeCount (d\<lparr>defaultWireEncoding := enc, defaultWireEncodingFormat := fmt\<rparr>) =
     (fst (getChangeCount d),
      (snd (getChangeCount d))\<lparr>defaultWireEncoding := enc, defaultWireEncodingFormat := fmt\<rparr>)"
  by (cases "trackers_clean d") (simp_all add: getChangeCount_expl trackers_clean_def)

lemma getChangeCount_snd_cache:
  "defaultWireEncoding (snd (getChangeCount d)) = defaultWireEncoding d"
  "defaultWireEncodingFormat (snd (getChangeCount d)) = defaultWireEncodingFormat d"
  "getDefaultWireEncodingChangeCount (snd (getChangeCount d)) = getDefaultWireEncodingChangeCount d"
  by (cases "trackers_clean d"; simp add: getChangeCount_expl)+

lemma setDefaultWireEncoding_expl:
  "setDefaultWireEncoding d enc fmt =
     (snd (getChangeCount d))\<lparr>defaultWireEncoding := enc, defaultWireEncodingFormat := fmt,
        getDefaultWireEncodingChangeCount := fst (getChangeCount d)\<rparr>"
  by (simp add: setDefaultWireEncoding_def getChangeCount_cache_upd)

lemma getDefaultWireEncoding_expl:
  "getDefaultWireEncoding d =
     (if getDefaultWireEncodingChangeCount d \<noteq> fst (getChangeCount d)
      then (SignedBlob_null,
            (snd (getChangeCount d))\<lparr>defaultWireEncoding := SignedBlob_null,
                defaultWireEncodingFormat := None,
                getDefaultWireEncodingChangeCount := fst (getChangeCount d)\<rparr>)
      else (defaultWireEncoding d, snd (getChangeCount d)))"
proof -
  obtain c d1 where g: "getChangeCount d = (c, d1)" by (cases "getChangeCount d")
  have i: "getChangeCount d1 = (c, d1)" using getChangeCount_idem[of d] g by simp
  have s: "defaultWireEncoding d1 = defaultWireEncoding d"
     "getDefaultWireEncodingChangeCount d1 = getDefaultWireEncodingChangeCount d"
    using getChangeCount_snd_cache[of d] g by simp_all
  show ?thesis
    by (simp add: getDefaultWireEncoding_def g getChangeCount_cache_upd i s)
qed

lemma getChangeCount_cache_upd3:
  "getChangeCount (d\<lparr>defaultWireEncoding := enc, defaultWireEncodingFormat := fmt,
       getDefaultWireEncodingChangeCount := c\<rparr>) =
     (fst (getChangeCount d),
      (snd (getChangeCount d))\<lparr>defaultWireEncoding := enc, defaultWireEncodingFormat := fmt,
         getDefaultWireEncodingChangeCount := c\<rparr>)"
  by (cases "trackers_clean d") (simp_all add: getChangeCount_expl trackers_clean_def)

lemma getChangeCount_setDefaultWireEncoding:
  "getChangeCount (setDefaultWireEncoding d enc fmt) =
     (fst (getChangeCount d), setDefaultWireEncoding d enc fmt)"
  by (simp add: setDefaultWireEncoding_expl getChangeCount_cache_upd3 getChangeCount_idem)

lemma setDefaultWireEncoding_sel:
  "defaultWireEncoding (setDefaultWireEncoding d enc fmt) = enc"
  "defaultWireEncodingFormat (setDefaultWireEncoding d enc fmt) = fmt"
  "getDefaultWireEncodingChangeCount (setDefaultWireEncoding d enc fmt) = fst (getChangeCount d)"
  "changeCount (setDefaultWireEncoding d enc fmt) = fst (getChangeCount d)"
  by (simp_all add: setDefaultWireEncoding_expl getChangeCount_fst)

lemma getDefaultWireEncoding_setDefaultWireEncoding:
  "getDefaultWireEncoding (setDefaultWireEncoding d enc fmt) =
     (enc, setDefaultWireEncoding d enc fmt)"
  by (simp add: getDefaultWireEncoding_expl getChangeCount_setDefaultWireEncoding
      setDefaultWireEncoding_sel)

lemma getDefaultWireEncoding_idem:
  "getDefaultWireEncoding (snd (getDefaultWireEncoding d)) =
     (fst (getDefaultWireEncoding d), snd (getDefaultWireEncoding d))"
proof (cases "getDefaultWireEncodingChangeCount d \<noteq> fst (getChangeCount d)")
  case True
  then show ?thesis
    by (simp add: getDefaultWireEncoding_expl[of d] getDefaultWireEncoding_expl[of "_\<lparr>defaultWireEncoding := _, defaultWireEncodingFormat := _, getDefaultWireEncodingChangeCount := _\<rparr>"]
        getChangeCount_cache_upd3 getChangeCount_idem)
next
  case False
  then show ?thesis
    by (simp add: getDefaultWireEncoding_expl[of d] getDefaultWireEncoding_expl[of "snd (getChangeCount d)"]
         getChangeCount_idem getChangeCount_snd_cache)
qed

text \<open>
  C1: when \<open>wireEncode\<close> with the default wire format returns an encoding, a second call
  with nothing done to the packet in between returns the same encoding, leaves the packet
  as it is, and calls \<open>encodeData\<close> zero times.
\<close>

theorem wireEncode_twice_cached:
  assumes "wireEncode codec dflt d dflt = (Inr encoding, d', k)"
  shows "wireEncode codec dflt d' dflt = (Inr encoding, d', 0)"
proof -
  obtain cached d1 where g: "getDefaultWireEncoding d = (cached, d1)"
    by (cases "getDefaultWireEncoding d")
  have i: "getDefaultWireEncoding d1 = (cached, d1)"
    using getDefaultWireEncoding_idem[of d] g by simp
  show ?thesis
  proof (cases "\<not> isNull cached \<and> getDefaultWireEncodingFormat d1 = Some dflt")
    case True
    with assms g i have "encoding = cached" "d' = d1"
      by (simp_all add: wireEncode_def)
    with True i show ?thesis by (simp add: wireEncode_def)
  next
    case False
    with assms g obtain bs b e where
      enc: "encodeData codec dflt (Data_fields d1) = Inr (bs, b, e)"
      and res: "encoding = SignedBlob_ctor (Some (Owned bs)) b e"
               "d' = setDefaultWireEncoding d1 encoding (Some dflt)"
      by (auto simp add: wireEncode_def Let_def split: sum.splits)
    have "\<not> isNull encoding" using res by (simp add: isNull_def SignedBlob_ctor_def)
    then show ?thesis
      using res(2)
      by (simp add: wireEncode_def getDefaultWireEncoding_setDefaultWireEncoding
          getDefaultWireEncodingFormat_def setDefaultWireEncoding_sel)
  qed
qed

lemmas eval_defs = wireEncode_def wireDecode_def getDefaultWireEncoding_def getChangeCount_def
  checkChanged_def setDefaultWireEncoding_def Data_init_def setContent_def setName_def
  setMetaInfo_def ChangeCounter_init_def ChangeCounter_set_def Name_of_components_def
  MetaInfo_default_def MetaInfo_copy_def SignedBlob_null_def SignedBlob_ctor_def isNull_def
  getDefaultWireEncodingFormat_def Data_fields_def getName_def getMetaInfo_def getContent_def
  testCodec_def hello_def Let_def helloPacket_def Blob_buf_def populate.simps

theorem wireEncode_twice_cached_witness:
  "fst (wireEncode testCodec 0 helloPacket 0) = Inr (SignedBlob_ctor (Some (Owned hello)) 0 5) \<and>
   wireEncode testCodec 0 (fst (snd (wireEncode testCodec 0 helloPacket 0))) 0 =
     (Inr (SignedBlob_ctor (Some (Owned hello)) 0 5),
      fst (snd (wireEncode testCodec 0 helloPacket 0)), 0)"
proof -
  have h: "fst (wireEncode testCodec 0 helloPacket 0) = Inr (SignedBlob_ctor (Some (Owned hello)) 0 5)"
    by (simp add: eval_defs)
  then have "wireEncode testCodec 0 helloPacket 0 =
      (Inr (SignedBlob_ctor (Some (Owned hello)) 0 5), fst (snd (wireEncode testCodec 0 helloPacket 0)),
       snd (snd (wireEncode testCodec 0 helloPacket 0)))"
    by (metis prod.collapse)
  from wireEncode_twice_cached[OF this] h show ?thesis by simp
qed

subsection \<open>The change count never decreases\<close>

lemma changeCount_le_getChangeCount: "changeCount d \<le> fst (getChangeCount d)"
  by (simp add: getChangeCount_expl)

lemma getChangeCount_le_Suc: "fst (getChangeCount d) \<le> changeCount d + 1"
  by (simp add: getChangeCount_expl)

lemma changeCount_getDefaultWireEncoding:
  "changeCount (snd (getDefaultWireEncoding d)) = fst (getChangeCount d)"
  by (simp add: getDefaultWireEncoding_expl getChangeCount_fst)

lemma changeCount_applyMutation: "changeCount d \<le> changeCount (applyMutation d m)"
  by (cases m) (simp_all add: setName_def setMetaInfo_def setContent_def mutateName_def
      mutateMetaInfo_def Let_def)

lemma changeCount_foldl_applyMutation:
  "changeCount d \<le> changeCount (foldl applyMutation d ms)"
proof (induction ms arbitrary: d)
  case Nil
  show ?case by simp
next
  case (Cons m ms)
  have "changeCount d \<le> changeCount (applyMutation d m)" by (rule changeCount_applyMutation)
  also have "\<dots> \<le> changeCount (foldl applyMutation (applyMutation d m) ms)" by (rule Cons.IH)
  finally show ?case by simp
qed

lemma changeCount_populate: "changeCount d \<le> changeCount (populate ip d f)"
  by (cases f)
     (auto simp add: populate.simps setName_def setMetaInfo_def setContent_def mutateName_def
        mutateMetaInfo_def Let_def)

lemma changeCount_wireEncode:
  "changeCount d \<le> changeCount (fst (snd (wireEncode codec dflt d fmt)))"
proof -
  have a: "changeCount d \<le> changeCount (snd (getDefaultWireEncoding d))"
    by (simp add: changeCount_getDefaultWireEncoding changeCount_le_getChangeCount)
  have b: "changeCount (snd (getDefaultWireEncoding d))
       \<le> changeCount (snd (getDefaultWireEncoding (snd (getDefaultWireEncoding d))))"
    by (simp add: getDefaultWireEncoding_idem)
  have c: "changeCount (snd (getDefaultWireEncoding d))
       \<le> changeCount (setDefaultWireEncoding (snd (getDefaultWireEncoding d)) e f)" for e f
    by (simp add: setDefaultWireEncoding_sel changeCount_le_getChangeCount)
  show ?thesis
    using a b c
    by (auto simp add: wireEncode_def Let_def split: prod.splits sum.splits intro: order_trans)
qed

lemma changeCount_wireDecode:
  "changeCount d \<le> changeCount (snd (wireDecode codec dflt d input fmt))"
proof -
  have c: "changeCount d \<le> changeCount (setDefaultWireEncoding (populate ip d f) e g)"
    for ip f e g
    using changeCount_populate[of d ip f] changeCount_le_getChangeCount[of "populate ip d f"]
    by (simp add: setDefaultWireEncoding_sel)
  show ?thesis
    using c changeCount_foldl_applyMutation[of d]
    by (auto simp add: wireDecode_def Let_def split: prod.splits sum.splits)
qed

lemma changeCount_call: "changeCount d \<le> changeCount (call codec dflt d c)"
proof (cases c)
  case (Mutation m)
  then show ?thesis by (simp add: changeCount_applyMutation)
next
  case GetChangeCount
  then show ?thesis
    using changeCount_le_getChangeCount[of d] by (simp add: getChangeCount_fst)
next
  case GetDefaultWireEncoding
  then show ?thesis
    by (simp add: changeCount_getDefaultWireEncoding changeCount_le_getChangeCount)
next
  case (WireEncode fmt)
  then show ?thesis by (simp add: changeCount_wireEncode)
next
  case (WireDecode input fmt)
  then show ?thesis by (simp add: changeCount_wireDecode)
qed

lemma changeCount_calls: "changeCount d \<le> changeCount (calls codec dflt d cs)"
  unfolding calls_def
proof (induction cs arbitrary: d)
  case Nil
  show ?case by simp
next
  case (Cons c cs)
  have "changeCount d \<le> changeCount (call codec dflt d c)" by (rule changeCount_call)
  also have "\<dots> \<le> changeCount (foldl (call codec dflt) (call codec dflt d c) cs)"
    by (rule Cons.IH)
  finally show ?case by simp
qed

text \<open>
  C10: once \<open>getChangeCount\<close> has returned a value, whatever sequence of calls follows on
  the packet (setters, in-place changes of the name or metaInfo object, \<open>getChangeCount\<close>,
  \<open>getDefaultWireEncoding\<close>, \<open>wireEncode\<close>, \<open>wireDecode\<close>, with any arguments and any
  codec), the next \<open>getChangeCount\<close> returns at least that value; and a second call right
  after the first returns the same value and leaves the packet as it is.
\<close>

theorem getChangeCount_monotone:
  "fst (getChangeCount d)
     \<le> fst (getChangeCount (calls codec dflt (snd (getChangeCount d)) cs)) \<and>
   getChangeCount (snd (getChangeCount d)) = (fst (getChangeCount d), snd (getChangeCount d))"
proof
  have "fst (getChangeCount d) = changeCount (snd (getChangeCount d))"
    by (rule getChangeCount_fst)
  also have "\<dots> \<le> changeCount (calls codec dflt (snd (getChangeCount d)) cs)"
    by (rule changeCount_calls)
  also have "\<dots> \<le> fst (getChangeCount (calls codec dflt (snd (getChangeCount d)) cs))"
    by (rule changeCount_le_getChangeCount)
  finally show "fst (getChangeCount d)
     \<le> fst (getChangeCount (calls codec dflt (snd (getChangeCount d)) cs))" .
  show "getChangeCount (snd (getChangeCount d)) = (fst (getChangeCount d), snd (getChangeCount d))"
    by (rule getChangeCount_idem)
qed

subsection \<open>What wireEncode and wireDecode do, in closed form\<close>

lemma Data_fields_getChangeCount: "Data_fields (snd (getChangeCount d)) = Data_fields d"
  by (cases "trackers_clean d")
     (simp_all add: getChangeCount_expl Data_fields_def getName_def getMetaInfo_def getContent_def)

lemma Data_fields_cache_upd:
  "Data_fields (d\<lparr>defaultWireEncoding := enc, defaultWireEncodingFormat := fmt,
       getDefaultWireEncodingChangeCount := c\<rparr>) = Data_fields d"
  by (simp add: Data_fields_def getName_def getMetaInfo_def getContent_def)

lemma Data_fields_getDefaultWireEncoding:
  "Data_fields (snd (getDefaultWireEncoding d)) = Data_fields d"
  by (simp add: getDefaultWireEncoding_expl Data_fields_cache_upd Data_fields_getChangeCount)

lemma Data_fields_setDefaultWireEncoding:
  "Data_fields (setDefaultWireEncoding d enc fmt) = Data_fields d"
  by (simp add: setDefaultWireEncoding_expl Data_fields_cache_upd Data_fields_getChangeCount)

lemma Blob_buf_Owned: "Blob_buf (map_option Owned c) = c"
  by (cases c) (simp_all add: Blob_buf_def)

lemma Data_fields_populate: "Data_fields (populate ip d f) = f"
  by (cases f)
     (auto simp add: populate.simps Data_fields_def getName_def getMetaInfo_def getContent_def
        setName_def setMetaInfo_def setContent_def mutateName_def mutateMetaInfo_def
        ChangeCounter_set_def
        Name_of_components_def MetaInfo_copy_def Blob_buf_Owned Let_def)

lemma getDefaultWireEncoding_hit:
  "(\<not> isNull (fst (getDefaultWireEncoding d)) \<and>
    getDefaultWireEncodingFormat (snd (getDefaultWireEncoding d)) = Some fmt) = cache_hit fmt d"
  by (auto simp add: getDefaultWireEncoding_expl cache_hit_def getDefaultWireEncodingFormat_def
      getChangeCount_snd_cache isNull_def SignedBlob_null_def SignedBlob_ctor_def)

lemma getDefaultWireEncoding_when_hit:
  "cache_hit fmt d \<Longrightarrow> getDefaultWireEncoding d = (defaultWireEncoding d, snd (getChangeCount d))"
  by (simp add: getDefaultWireEncoding_expl cache_hit_def)

lemma wireEncode_expl:
  "wireEncode codec dflt d fmt =
     (if cache_hit fmt d then (Inr (defaultWireEncoding d), snd (getChangeCount d), 0)
      else (case encodeData codec fmt (Data_fields d) of
              Inl err \<Rightarrow> (Inl err, snd (getDefaultWireEncoding d), 1)
            | Inr (bs, b, e) \<Rightarrow>
                (Inr (SignedBlob_ctor (Some (Owned bs)) b e),
                 if fmt = dflt
                 then setDefaultWireEncoding (snd (getDefaultWireEncoding d))
                        (SignedBlob_ctor (Some (Owned bs)) b e) (Some dflt)
                 else snd (getDefaultWireEncoding d), 1)))"
proof -
  obtain cached d1 where g: "getDefaultWireEncoding d = (cached, d1)"
    by (cases "getDefaultWireEncoding d")
  have i: "getDefaultWireEncoding d1 = (cached, d1)"
    using getDefaultWireEncoding_idem[of d] g by simp
  have h: "(\<not> isNull cached \<and> getDefaultWireEncodingFormat d1 = Some fmt) = cache_hit fmt d"
    using getDefaultWireEncoding_hit[of d fmt] g by simp
  have f: "Data_fields d1 = Data_fields d"
    using Data_fields_getDefaultWireEncoding[of d] g by simp
  show ?thesis
  proof (cases "cache_hit fmt d")
    case True
    with getDefaultWireEncoding_when_hit[OF True] g h i show ?thesis
      by (simp add: wireEncode_def)
  next
    case False
    with g h f show ?thesis
      by (auto simp add: wireEncode_def Let_def split: sum.splits prod.splits)
  qed
qed

lemma wireDecode_expl:
  "wireDecode codec dflt d input fmt =
     (case decodeData codec fmt (Blob_buf (Blob_ctor input True)) of
        Inl (partial, err) \<Rightarrow> (Inl err, foldl applyMutation d partial)
      | Inr (decoded, b, e) \<Rightarrow>
          (Inr (),
           if fmt = dflt
           then setDefaultWireEncoding (populate (assignsInPlace codec fmt) d decoded)
                  (SignedBlob_ctor (Blob_ctor input True) b e) (Some dflt)
           else setDefaultWireEncoding (populate (assignsInPlace codec fmt) d decoded)
                  SignedBlob_null None))"
  by (cases input)
     (simp_all add: wireDecode_def Blob_buf_def Let_def split: sum.splits prod.splits)

text \<open>
  C6: when the decoder returns the offsets \<open>b\<close> and \<open>e\<close>, \<open>wireDecode\<close> returns. With the
  default wire format, \<open>getDefaultWireEncoding()\<close> then returns, without changing the
  packet, the signed blob \<open>SignedBlob(Blob(input, True), b, e)\<close>: it has the decoder's
  offsets and the input's bytes; its array is the input's own when the input is a blob, and
  a private copy when the input is a caller's array, so that no later write of the caller
  to that array or any other changes it. The cached format is the default one. The count
  recorded with the cache is what \<open>getChangeCount()\<close> returns on the packet as the decoder
  left it (trackers polled, whether the decoder went through the setters or assigned in
  place), and \<open>getChangeCount()\<close> returns that count afterwards and leaves the packet as it
  is. With any other format, \<open>getDefaultWireEncoding()\<close> returns a null blob and
  \<open>getDefaultWireEncodingFormat()\<close> returns \<open>None\<close>.
\<close>

theorem wireDecode_cache:
  fixes codec :: "'wf WireCodec" and dflt fmt :: 'wf and d :: "'wf Data" and input :: buffer_arg
  defines "after \<equiv> snd (wireDecode codec dflt d input fmt)"
  assumes "decodeData codec fmt
             (case input of IsBlob bl \<Rightarrow> Blob_buf bl | IsArray a bs \<Rightarrow> Some bs)
           = Inr (decoded, b, e)"
  shows "fst (wireDecode codec dflt d input fmt) = Inr () \<and>
     (fmt = dflt \<longrightarrow>
        getDefaultWireEncoding after = (SignedBlob_ctor (Blob_ctor input True) b e, after) \<and>
        signedPortionBeginOffset (fst (getDefaultWireEncoding after)) = b \<and>
        signedPortionEndOffset (fst (getDefaultWireEncoding after)) = e \<and>
        Blob_buf (blob (fst (getDefaultWireEncoding after))) =
          (case input of IsBlob bl \<Rightarrow> Blob_buf bl | IsArray a bs \<Rightarrow> Some bs) \<and>
        (case input of
           IsBlob bl \<Rightarrow> blob (fst (getDefaultWireEncoding after)) = bl
         | IsArray a bs \<Rightarrow>
             blob (fst (getDefaultWireEncoding after)) = Some (Owned bs) \<and>
             array_written a' bs' (blob (fst (getDefaultWireEncoding after))) =
               blob (fst (getDefaultWireEncoding after))) \<and>
        getDefaultWireEncodingFormat after = Some dflt \<and>
        getDefaultWireEncodingChangeCount after =
          fst (getChangeCount (populate (assignsInPlace codec fmt) d decoded)) \<and>
        getChangeCount after = (getDefaultWireEncodingChangeCount after, after)) \<and>
     (fmt \<noteq> dflt \<longrightarrow>
        isNull (fst (getDefaultWireEncoding after)) \<and>
        getDefaultWireEncodingFormat after = None \<and>
        getDefaultWireEncodingFormat (snd (getDefaultWireEncoding after)) = None)"
proof -
  have buf: "Blob_buf (Blob_ctor input True) =
      (case input of IsBlob bl \<Rightarrow> Blob_buf bl | IsArray a bs \<Rightarrow> Some bs)"
    by (cases input) (simp_all add: Blob_buf_def)
  with assms(2) have dec:
    "decodeData codec fmt (Blob_buf (Blob_ctor input True)) = Inr (decoded, b, e)"
    by simp
  have own: "(case input of
           IsBlob bl \<Rightarrow> Blob_ctor input True = bl
         | IsArray a bs \<Rightarrow>
             Blob_ctor input True = Some (Owned bs) \<and>
             array_written a' bs' (Blob_ctor input True) = Blob_ctor input True)"
    by (cases input) simp_all
  show ?thesis
  proof (cases "fmt = dflt")
    case True
    then have w: "wireDecode codec dflt d input fmt =
        (Inr (), setDefaultWireEncoding (populate (assignsInPlace codec fmt) d decoded)
                   (SignedBlob_ctor (Blob_ctor input True) b e) (Some dflt))"
      using dec by (simp add: wireDecode_expl)
    have g: "getDefaultWireEncoding after = (SignedBlob_ctor (Blob_ctor input True) b e, after)"
      unfolding after_def w by (simp add: getDefaultWireEncoding_setDefaultWireEncoding)
    have sel: "blob (SignedBlob_ctor (Blob_ctor input True) b e) = Blob_ctor input True"
      "signedPortionBeginOffset (SignedBlob_ctor (Blob_ctor input True) b e) = b"
      "signedPortionEndOffset (SignedBlob_ctor (Blob_ctor input True) b e) = e"
      by (simp_all add: SignedBlob_ctor_def)
    have rest: "getDefaultWireEncodingFormat after = Some dflt"
      "getDefaultWireEncodingChangeCount after =
          fst (getChangeCount (populate (assignsInPlace codec fmt) d decoded))"
      "getChangeCount after = (getDefaultWireEncodingChangeCount after, after)"
      unfolding after_def w
      by (simp_all add: setDefaultWireEncoding_sel getDefaultWireEncodingFormat_def
          getChangeCount_setDefaultWireEncoding)
    have bl: "blob (fst (getDefaultWireEncoding after)) = Blob_ctor input True"
      using g sel(1) by simp
    have own': "(case input of
           IsBlob bl \<Rightarrow> blob (fst (getDefaultWireEncoding after)) = bl
         | IsArray a bs \<Rightarrow>
             blob (fst (getDefaultWireEncoding after)) = Some (Owned bs) \<and>
             array_written a' bs' (blob (fst (getDefaultWireEncoding after))) =
               blob (fst (getDefaultWireEncoding after)))"
      using own unfolding bl .
    have offs: "signedPortionBeginOffset (fst (getDefaultWireEncoding after)) = b"
      "signedPortionEndOffset (fst (getDefaultWireEncoding after)) = e"
      "Blob_buf (blob (fst (getDefaultWireEncoding after))) =
          (case input of IsBlob bl \<Rightarrow> Blob_buf bl | IsArray a bs \<Rightarrow> Some bs)"
      using g sel buf by simp_all
    have "fst (wireDecode codec dflt d input fmt) = Inr ()" using w by simp
    then show ?thesis
      using True g offs own' rest by blast
  next
    case False
    then have w: "wireDecode codec dflt d input fmt =
        (Inr (), setDefaultWireEncoding (populate (assignsInPlace codec fmt) d decoded)
                   SignedBlob_null None)"
      using dec by (simp add: wireDecode_expl)
    have "isNull (fst (getDefaultWireEncoding after))"
      "getDefaultWireEncodingFormat after = None"
      "getDefaultWireEncodingFormat (snd (getDefaultWireEncoding after)) = None"
      unfolding after_def w
      by (simp_all add: getDefaultWireEncoding_setDefaultWireEncoding setDefaultWireEncoding_sel
          getDefaultWireEncodingFormat_def isNull_def SignedBlob_null_def SignedBlob_ctor_def)
    then show ?thesis
      using False w by simp
  qed
qed

lemma decode_hello:
  "decodeData testCodec fmt (Some hello) =
     Inr (([], (0, None), Some (if fmt = 0 then hello else rev hello)), 0, 5)"
  by (simp add: testCodec_def hello_def)

text \<open>
  The witness decodes the caller's array at address \<open>7\<close> three times: with the default
  format \<open>0\<close>, whose decoder uses the setters; with the default format \<open>1\<close>, whose decoder
  assigns in place; and with format \<open>1\<close> while the default is \<open>0\<close>. Its last conjunct shows
  what the copy is for: a blob sharing the caller's array would change with it.
\<close>

theorem wireDecode_cache_witness:
  "getDefaultWireEncoding (snd (wireDecode testCodec 0 helloPacket (IsArray 7 hello) 0)) =
     (SignedBlob_ctor (Some (Owned hello)) 0 5,
      snd (wireDecode testCodec 0 helloPacket (IsArray 7 hello) 0)) \<and>
   array_written 7 [0]
     (blob (fst (getDefaultWireEncoding
        (snd (wireDecode testCodec 0 helloPacket (IsArray 7 hello) 0))))) = Some (Owned hello) \<and>
   getDefaultWireEncodingChangeCount
     (snd (wireDecode testCodec 0 helloPacket (IsArray 7 hello) 0)) = 4 \<and>
   changeCount (populate True helloPacket ([], (0, None), Some (rev hello))) = 2 \<and>
   getDefaultWireEncodingChangeCount
     (snd (wireDecode testCodec 1 helloPacket (IsArray 7 hello) 1)) = 3 \<and>
   fst (getChangeCount (snd (wireDecode testCodec 1 helloPacket (IsArray 7 hello) 1))) = 3 \<and>
   isNull (fst (getDefaultWireEncoding
     (snd (wireDecode testCodec 0 helloPacket (IsArray 7 hello) 1)))) \<and>
   getDefaultWireEncodingFormat
     (snd (wireDecode testCodec 0 helloPacket (IsArray 7 hello) 1)) = None \<and>
   array_written 7 [0] (Blob_ctor (IsArray 7 hello) False) = Some (Shared 7 [0])"
proof -
  have h0: "decodeData testCodec 0
      (case IsArray 7 hello of IsBlob bl \<Rightarrow> Blob_buf bl | IsArray a bs \<Rightarrow> Some bs)
      = Inr (([], (0, None), Some hello), 0, 5)"
    by (simp add: decode_hello)
  have h1: "decodeData testCodec 1
      (case IsArray 7 hello of IsBlob bl \<Rightarrow> Blob_buf bl | IsArray a bs \<Rightarrow> Some bs)
      = Inr (([], (0, None), Some (rev hello)), 0, 5)"
    by (simp add: decode_hello)
  have p0: "assignsInPlace testCodec 0 = False" and p1: "assignsInPlace testCodec 1 = True"
    by (simp_all add: testCodec_def)
  have c0: "fst (getChangeCount (populate False helloPacket ([], (0, None), Some hello))) = 4"
    by (simp add: eval_defs)
  have c1: "fst (getChangeCount (populate True helloPacket ([], (0, None), Some (rev hello)))) = 3"
    by (simp add: eval_defs mutateName_def mutateMetaInfo_def)
  have r1: "changeCount (populate True helloPacket ([], (0, None), Some (rev hello))) = 2"
    by (simp add: eval_defs mutateName_def mutateMetaInfo_def)
  have sh: "array_written 7 [0] (Blob_ctor (IsArray 7 hello) False) = Some (Shared 7 [0])"
    by simp
  show ?thesis
    using wireDecode_cache[OF h0, of 0 helloPacket 7 "[0]"]
          wireDecode_cache[OF h1, of 1 helloPacket 7 "[0]"]
          wireDecode_cache[OF h1, of 0 helloPacket 7 "[0]"]
          p0 p1 c0 c1 r1 sh
    by (simp add: SignedBlob_ctor_def)
qed

subsection \<open>Facts about every packet reached through the calls\<close>

lemma counters_ordered_init: "counters_ordered dflt (Data_init nm)"
  by (simp add: counters_ordered_def Data_init_def ChangeCounter_init_def)

lemma counters_ordered_applyMutation:
  "counters_ordered dflt d \<Longrightarrow> counters_ordered dflt (applyMutation d m)"
  by (cases m)
     (simp_all add: counters_ordered_def setName_def setMetaInfo_def setContent_def
        mutateName_def mutateMetaInfo_def ChangeCounter_set_def Let_def)

lemma counters_ordered_foldl_applyMutation:
  "counters_ordered dflt d \<Longrightarrow> counters_ordered dflt (foldl applyMutation d ms)"
  by (induction ms arbitrary: d) (simp_all add: counters_ordered_applyMutation)

lemma counters_ordered_populate:
  "counters_ordered dflt d \<Longrightarrow> counters_ordered dflt (populate ip d f)"
  by (cases f; cases ip)
     (auto simp add: populate.simps counters_ordered_def setName_def setMetaInfo_def
        setContent_def mutateName_def mutateMetaInfo_def ChangeCounter_set_def Let_def)

lemma counters_ordered_getChangeCount:
  "counters_ordered dflt d \<Longrightarrow> counters_ordered dflt (snd (getChangeCount d))"
  by (cases "trackers_clean d") (simp_all add: getChangeCount_expl counters_ordered_def)

lemma counters_ordered_cache_upd:
  assumes "counters_ordered dflt d" and "c \<le> changeCount d" and "fmt \<in> {None, Some dflt}"
  shows "counters_ordered dflt (d\<lparr>defaultWireEncoding := enc, defaultWireEncodingFormat := fmt,
       getDefaultWireEncodingChangeCount := c\<rparr>)"
  using assms by (simp add: counters_ordered_def)

lemma counters_ordered_setDefaultWireEncoding:
  assumes "counters_ordered dflt d" and "fmt \<in> {None, Some dflt}"
  shows "counters_ordered dflt (setDefaultWireEncoding d enc fmt)"
  unfolding setDefaultWireEncoding_expl
  using counters_ordered_getChangeCount[OF assms(1)] assms(2)
  by (intro counters_ordered_cache_upd) (simp_all add: getChangeCount_fst)

lemma counters_ordered_getDefaultWireEncoding:
  assumes "counters_ordered dflt d"
  shows "counters_ordered dflt (snd (getDefaultWireEncoding d))"
proof (cases "getDefaultWireEncodingChangeCount d \<noteq> fst (getChangeCount d)")
  case True
  then show ?thesis
    using counters_ordered_getChangeCount[OF assms]
    by (simp add: getDefaultWireEncoding_expl counters_ordered_cache_upd getChangeCount_fst)
next
  case False
  then show ?thesis
    using counters_ordered_getChangeCount[OF assms] by (simp add: getDefaultWireEncoding_expl)
qed

lemma counters_ordered_wireEncode:
  assumes "counters_ordered dflt d"
  shows "counters_ordered dflt (fst (snd (wireEncode codec dflt d fmt)))"
  using counters_ordered_getChangeCount[OF assms] counters_ordered_getDefaultWireEncoding[OF assms]
  by (auto simp add: wireEncode_expl counters_ordered_setDefaultWireEncoding
      split: sum.splits prod.splits)

lemma counters_ordered_wireDecode:
  assumes "counters_ordered dflt d"
  shows "counters_ordered dflt (snd (wireDecode codec dflt d input fmt))"
  using counters_ordered_foldl_applyMutation[OF assms] counters_ordered_populate[OF assms]
  by (auto simp add: wireDecode_expl counters_ordered_setDefaultWireEncoding
      split: sum.splits prod.splits)

lemma counters_ordered_call:
  "counters_ordered dflt d \<Longrightarrow> counters_ordered dflt (call codec dflt d c)"
  by (cases c)
     (simp_all add: counters_ordered_applyMutation counters_ordered_getChangeCount
        counters_ordered_getDefaultWireEncoding counters_ordered_wireEncode
        counters_ordered_wireDecode)

lemma counters_ordered_calls:
  "counters_ordered dflt d \<Longrightarrow> counters_ordered dflt (calls codec dflt d cs)"
  unfolding calls_def
  by (induction cs arbitrary: d) (simp_all add: counters_ordered_call)

lemma counters_ordered_reachable:
  "counters_ordered dflt (calls codec dflt (Data_init nm) cs)"
  by (simp add: counters_ordered_calls counters_ordered_init)

subsection \<open>Invalidation by the setters\<close>

lemma setter_not_cache_hit:
  assumes "counters_ordered dflt d"
  shows "\<not> cache_hit fmt (setName d nm)" "\<not> cache_hit fmt (setMetaInfo d mi)"
        "\<not> cache_hit fmt (setContent d c)"
proof -
  have le: "getDefaultWireEncodingChangeCount d \<le> changeCount d"
    using assms by (simp add: counters_ordered_def)
  have "getDefaultWireEncodingChangeCount (setName d nm) < fst (getChangeCount (setName d nm))"
    using le changeCount_le_getChangeCount[of "setName d nm"]
    by (simp add: setName_def Let_def)
  then show "\<not> cache_hit fmt (setName d nm)" by (simp add: cache_hit_def)
  have "getDefaultWireEncodingChangeCount (setMetaInfo d mi)
          < fst (getChangeCount (setMetaInfo d mi))"
    using le changeCount_le_getChangeCount[of "setMetaInfo d mi"]
    by (simp add: setMetaInfo_def Let_def)
  then show "\<not> cache_hit fmt (setMetaInfo d mi)" by (simp add: cache_hit_def)
  have "getDefaultWireEncodingChangeCount (setContent d c)
          < fst (getChangeCount (setContent d c))"
    using le changeCount_le_getChangeCount[of "setContent d c"]
    by (simp add: setContent_def Let_def)
  then show "\<not> cache_hit fmt (setContent d c)" by (simp add: cache_hit_def)
qed

lemma wireEncode_miss_calls:
  "\<not> cache_hit fmt d \<Longrightarrow> snd (snd (wireEncode codec dflt d fmt)) = 1"
  by (simp add: wireEncode_expl split: sum.splits prod.splits)

text \<open>
  C2: on every packet reached from the constructor through the calls, after one call of
  \<open>setName\<close>, \<open>setMetaInfo\<close> or \<open>setContent\<close> the next \<open>wireEncode\<close> with the default
  wire format calls \<open>encodeData\<close> exactly once, whatever the two trackers report; and one
  call of \<open>getChangeCount\<close> adds one to the change count if either tracker reports a
  change, and nothing otherwise.
\<close>

theorem setter_then_wireEncode_one_codec_call:
  assumes "d = calls codec dflt (Data_init nm0) cs"
  shows "snd (snd (wireEncode codec dflt (setName d nm) dflt)) = 1 \<and>
         snd (snd (wireEncode codec dflt (setMetaInfo d mi) dflt)) = 1 \<and>
         snd (snd (wireEncode codec dflt (setContent d c) dflt)) = 1 \<and>
         fst (getChangeCount d') =
           changeCount d' +
             (if fst (checkChanged nameChangeCount (name d')) \<or>
                 fst (checkChanged metaInfoChangeCount (metaInfo d'))
              then 1 else 0)"
proof -
  have co: "counters_ordered dflt d"
    unfolding assms by (rule counters_ordered_reachable)
  have "fst (getChangeCount d') =
           changeCount d' +
             (if fst (checkChanged nameChangeCount (name d')) \<or>
                 fst (checkChanged metaInfoChangeCount (metaInfo d'))
              then 1 else 0)"
    by (simp add: getChangeCount_def checkChanged_def Let_def)
  then show ?thesis
    using setter_not_cache_hit[OF co] by (simp add: wireEncode_miss_calls)
qed

lemma helloPacket_reachable:
  "fst (snd (wireEncode testCodec 0 helloPacket 0)) =
     calls testCodec 0 (Data_init (NotName []))
       [Mutation (SetContent (IsArray 7 hello)), WireEncode 0]"
  by (simp add: calls_def helloPacket_def)

theorem setter_then_wireEncode_one_codec_call_witness:
  "snd (snd (wireEncode testCodec 0 (fst (snd (wireEncode testCodec 0 helloPacket 0))) 0)) = 0 \<and>
   snd (snd (wireEncode testCodec 0
     (setContent (fst (snd (wireEncode testCodec 0 helloPacket 0))) (IsArray 8 [1, 2, 3])) 0)) = 1"
proof -
  have "snd (snd (wireEncode testCodec 0 (fst (snd (wireEncode testCodec 0 helloPacket 0))) 0)) = 0"
    by (simp add: eval_defs)
  moreover have "snd (snd (wireEncode testCodec 0
     (setContent (fst (snd (wireEncode testCodec 0 helloPacket 0))) (IsArray 8 [1, 2, 3])) 0)) = 1"
    using setter_then_wireEncode_one_codec_call
            [OF helloPacket_reachable, where c = "IsArray 8 [1, 2, 3]" and nm = "NotName []"
               and mi = None and d' = helloPacket]
    by (elim conjE)
  ultimately show ?thesis by (intro conjI)
qed

subsection \<open>Encoding with another wire format\<close>

text \<open>
  C5 as stated fails in two ways. On \<open>stalePacket\<close>, whose cached encoding is out of date,
  \<open>getDefaultWireEncodingFormat()\<close> returns the default format \<open>0\<close> before \<open>wireEncode\<close>
  with format \<open>1\<close> and \<open>None\<close> after it. On \<open>oldDefaultPacket\<close>, whose cache was written
  while format \<open>1\<close> was the default, \<open>wireEncode\<close> with format \<open>1\<close> under the default \<open>0\<close>
  returns the cached blob and calls \<open>encodeData\<close> zero times: nothing is freshly built.
\<close>

theorem wireEncode_nonDefault_format_counterexample:
  "getDefaultWireEncodingFormat stalePacket = Some 0 \<and>
   getDefaultWireEncodingFormat (fst (snd (wireEncode testCodec 0 stalePacket 1))) = None \<and>
   wireEncode testCodec 0 oldDefaultPacket 1 =
     (Inr (defaultWireEncoding oldDefaultPacket), oldDefaultPacket, 0)"
  by (simp add: stalePacket_def oldDefaultPacket_def eval_defs)

text \<open>
  C5, amended: for every packet at all, \<open>wireEncode\<close> with a format other than the current
  default leaves the packet exactly as a call of \<open>getDefaultWireEncoding()\<close> leaves it, so
  nothing is stored in the default cache, \<open>getDefaultWireEncoding()\<close> returns afterwards
  what it would have returned before, and \<open>getDefaultWireEncodingFormat()\<close> is unchanged if
  the recorded count was current and \<open>None\<close> otherwise. The result is the cached blob, with
  no call of \<open>encodeData\<close>, when the packet holds a current, non-null cached encoding
  recorded for the requested format; in every other case \<open>encodeData\<close> is called once and
  the result is the signed blob built from what it returns (or its error). The latter is
  the case whenever the recorded format is \<open>None\<close> or the current default.
\<close>

theorem wireEncode_nonDefault_frame:
  assumes "fmt \<noteq> dflt"
  shows "fst (snd (wireEncode codec dflt d fmt)) = snd (getDefaultWireEncoding d) \<and>
         getDefaultWireEncoding (fst (snd (wireEncode codec dflt d fmt))) =
           (fst (getDefaultWireEncoding d), fst (snd (wireEncode codec dflt d fmt))) \<and>
         getDefaultWireEncodingFormat (fst (snd (wireEncode codec dflt d fmt))) =
           (if getDefaultWireEncodingChangeCount d = fst (getChangeCount d)
            then getDefaultWireEncodingFormat d else None) \<and>
         (fst (wireEncode codec dflt d fmt), snd (snd (wireEncode codec dflt d fmt))) =
           (if getDefaultWireEncodingChangeCount d = fst (getChangeCount d) \<and>
               \<not> isNull (defaultWireEncoding d) \<and>
               getDefaultWireEncodingFormat d = Some fmt
            then (Inr (defaultWireEncoding d), 0)
            else (case encodeData codec fmt (Data_fields d) of
                    Inl err \<Rightarrow> Inl err
                  | Inr (bs, b, e) \<Rightarrow> Inr (SignedBlob_ctor (Some (Owned bs)) b e),
                  1)) \<and>
         (getDefaultWireEncodingFormat d \<in> {None, Some dflt} \<longrightarrow>
            (fst (wireEncode codec dflt d fmt), snd (snd (wireEncode codec dflt d fmt))) =
              (case encodeData codec fmt (Data_fields d) of
                 Inl err \<Rightarrow> Inl err
               | Inr (bs, b, e) \<Rightarrow> Inr (SignedBlob_ctor (Some (Owned bs)) b e),
               1))"
proof -
  have hit: "cache_hit fmt d =
      (getDefaultWireEncodingChangeCount d = fst (getChangeCount d) \<and>
       \<not> isNull (defaultWireEncoding d) \<and> getDefaultWireEncodingFormat d = Some fmt)"
    by (simp add: cache_hit_def getDefaultWireEncodingFormat_def)
  have st: "fst (snd (wireEncode codec dflt d fmt)) = snd (getDefaultWireEncoding d)"
  proof (cases "cache_hit fmt d")
    case True
    then show ?thesis
      by (simp add: wireEncode_expl getDefaultWireEncoding_when_hit)
  next
    case False
    then show ?thesis
      using assms by (simp add: wireEncode_expl split: sum.splits prod.splits)
  qed
  have f: "getDefaultWireEncodingFormat (snd (getDefaultWireEncoding d)) =
           (if getDefaultWireEncodingChangeCount d = fst (getChangeCount d)
            then getDefaultWireEncodingFormat d else None)"
    by (simp add: getDefaultWireEncoding_expl getDefaultWireEncodingFormat_def
        getChangeCount_snd_cache)
  have r: "(fst (wireEncode codec dflt d fmt), snd (snd (wireEncode codec dflt d fmt))) =
           (if cache_hit fmt d
            then (Inr (defaultWireEncoding d), 0)
            else (case encodeData codec fmt (Data_fields d) of
                    Inl err \<Rightarrow> Inl err
                  | Inr (bs, b, e) \<Rightarrow> Inr (SignedBlob_ctor (Some (Owned bs)) b e),
                  1))"
    by (simp add: wireEncode_expl split: sum.splits prod.splits)
  have n: "getDefaultWireEncodingFormat d \<in> {None, Some dflt} \<Longrightarrow> \<not> cache_hit fmt d"
    using assms by (auto simp add: hit)
  have l: "getDefaultWireEncodingFormat d \<in> {None, Some dflt} \<longrightarrow>
            (fst (wireEncode codec dflt d fmt), snd (snd (wireEncode codec dflt d fmt))) =
              (case encodeData codec fmt (Data_fields d) of
                 Inl err \<Rightarrow> Inl err
               | Inr (bs, b, e) \<Rightarrow> Inr (SignedBlob_ctor (Some (Owned bs)) b e),
               1)"
    using r n by simp
  show ?thesis
  proof (intro conjI)
    show "fst (snd (wireEncode codec dflt d fmt)) = snd (getDefaultWireEncoding d)"
      by (rule st)
    show "getDefaultWireEncoding (fst (snd (wireEncode codec dflt d fmt))) =
           (fst (getDefaultWireEncoding d), fst (snd (wireEncode codec dflt d fmt)))"
      unfolding st by (rule getDefaultWireEncoding_idem)
    show "getDefaultWireEncodingFormat (fst (snd (wireEncode codec dflt d fmt))) =
           (if getDefaultWireEncodingChangeCount d = fst (getChangeCount d)
            then getDefaultWireEncodingFormat d else None)"
      unfolding st by (rule f)
    show "(fst (wireEncode codec dflt d fmt), snd (snd (wireEncode codec dflt d fmt))) =
           (if getDefaultWireEncodingChangeCount d = fst (getChangeCount d) \<and>
               \<not> isNull (defaultWireEncoding d) \<and>
               getDefaultWireEncodingFormat d = Some fmt
            then (Inr (defaultWireEncoding d), 0)
            else (case encodeData codec fmt (Data_fields d) of
                    Inl err \<Rightarrow> Inl err
                  | Inr (bs, b, e) \<Rightarrow> Inr (SignedBlob_ctor (Some (Owned bs)) b e),
                  1))"
      using r unfolding hit .
    show "getDefaultWireEncodingFormat d \<in> {None, Some dflt} \<longrightarrow>
            (fst (wireEncode codec dflt d fmt), snd (snd (wireEncode codec dflt d fmt))) =
              (case encodeData codec fmt (Data_fields d) of
                 Inl err \<Rightarrow> Inl err
               | Inr (bs, b, e) \<Rightarrow> Inr (SignedBlob_ctor (Some (Owned bs)) b e),
               1)"
      by (rule l)
  qed
qed

theorem wireEncode_nonDefault_frame_witness:
  "(1::nat) \<noteq> 0 \<and>
   getDefaultWireEncodingFormat stalePacket \<in> {None, Some 0} \<and>
   (fst (wireEncode testCodec 0 stalePacket 1), snd (snd (wireEncode testCodec 0 stalePacket 1)))
     = (Inr (SignedBlob_ctor (Some (Owned [3, 2, 1])) 0 3), 1) \<and>
   fst (snd (wireEncode testCodec 0 stalePacket 1)) = snd (getDefaultWireEncoding stalePacket) \<and>
   fst (getDefaultWireEncoding (fst (snd (wireEncode testCodec 0 stalePacket 1)))) =
     SignedBlob_null \<and>
   fst (getDefaultWireEncoding stalePacket) = SignedBlob_null"
proof -
  have ne: "(1::nat) \<noteq> 0" by simp
  have fm: "getDefaultWireEncodingFormat stalePacket \<in> {None, Some 0}"
    by (simp add: stalePacket_def eval_defs)
  have enc: "encodeData testCodec 1 (Data_fields stalePacket) = Inr ([3, 2, 1], 0, 3)"
    by (simp add: stalePacket_def eval_defs)
  have g: "fst (getDefaultWireEncoding stalePacket) = SignedBlob_null"
    by (simp add: stalePacket_def eval_defs)
  note t = wireEncode_nonDefault_frame[OF ne, of testCodec stalePacket]
  have st: "fst (snd (wireEncode testCodec 0 stalePacket 1)) =
      snd (getDefaultWireEncoding stalePacket)"
    using t by blast
  have "(fst (wireEncode testCodec 0 stalePacket 1),
         snd (snd (wireEncode testCodec 0 stalePacket 1))) =
        (case encodeData testCodec 1 (Data_fields stalePacket) of
           Inl err \<Rightarrow> Inl err
         | Inr (bs, b, e) \<Rightarrow> Inr (SignedBlob_ctor (Some (Owned bs)) b e),
         1)"
    using t fm by blast
  then have res: "(fst (wireEncode testCodec 0 stalePacket 1),
         snd (snd (wireEncode testCodec 0 stalePacket 1))) =
        (Inr (SignedBlob_ctor (Some (Owned [3, 2, 1])) 0 3), 1)"
    unfolding enc by simp
  have "getDefaultWireEncoding (fst (snd (wireEncode testCodec 0 stalePacket 1))) =
      (fst (getDefaultWireEncoding stalePacket), fst (snd (wireEncode testCodec 0 stalePacket 1)))"
    using t by blast
  then have after: "fst (getDefaultWireEncoding
      (fst (snd (wireEncode testCodec 0 stalePacket 1)))) = SignedBlob_null"
    using g by simp
  show ?thesis
    using ne fm res st after g by (intro conjI)
qed

subsection \<open>The cached encoding decodes to the packet's fields\<close>

lemma mutateName_not_cache_hit:
  assumes "counters_ordered dflt d"
  shows "\<not> cache_hit fmt (mutateName d cs)"
proof -
  have "\<not> trackers_clean (mutateName d cs)"
    using assms by (simp add: counters_ordered_def trackers_clean_def mutateName_def)
  then have "fst (getChangeCount (mutateName d cs)) = changeCount d + 1"
    by (simp add: getChangeCount_expl mutateName_def)
  moreover have "getDefaultWireEncodingChangeCount (mutateName d cs) \<le> changeCount d"
    using assms by (simp add: counters_ordered_def mutateName_def)
  ultimately show ?thesis by (simp add: cache_hit_def)
qed

lemma mutateMetaInfo_not_cache_hit:
  assumes "counters_ordered dflt d"
  shows "\<not> cache_hit fmt (mutateMetaInfo d ct fp)"
proof -
  have "\<not> trackers_clean (mutateMetaInfo d ct fp)"
    using assms by (simp add: counters_ordered_def trackers_clean_def mutateMetaInfo_def)
  then have "fst (getChangeCount (mutateMetaInfo d ct fp)) = changeCount d + 1"
    by (simp add: getChangeCount_expl mutateMetaInfo_def)
  moreover have "getDefaultWireEncodingChangeCount (mutateMetaInfo d ct fp) \<le> changeCount d"
    using assms by (simp add: counters_ordered_def mutateMetaInfo_def)
  ultimately show ?thesis by (simp add: cache_hit_def)
qed

lemma applyMutation_not_cache_hit:
  "counters_ordered dflt d \<Longrightarrow> \<not> cache_hit fmt (applyMutation d m)"
  by (cases m)
     (simp_all add: setter_not_cache_hit mutateName_not_cache_hit mutateMetaInfo_not_cache_hit)

lemma cache_coherent_applyMutation:
  "counters_ordered dflt d \<Longrightarrow> cache_coherent codec dflt (applyMutation d m)"
  by (simp add: cache_coherent_def applyMutation_not_cache_hit)

lemma cache_coherent_foldl_applyMutation:
  assumes "counters_ordered dflt d" and "cache_coherent codec dflt d"
  shows "cache_coherent codec dflt (foldl applyMutation d ms)"
proof (cases ms rule: rev_cases)
  case Nil
  with assms(2) show ?thesis by simp
next
  case (snoc ms' m)
  have "counters_ordered dflt (foldl applyMutation d ms')"
    using assms(1) by (rule counters_ordered_foldl_applyMutation)
  then show ?thesis
    using snoc by (simp add: cache_coherent_applyMutation)
qed

lemma cache_hit_getChangeCount:
  "cache_hit fmt (snd (getChangeCount d)) = cache_hit fmt d"
  by (simp add: cache_hit_def getChangeCount_idem getChangeCount_snd_cache)

lemma cache_coherent_getChangeCount:
  "cache_coherent codec dflt d \<Longrightarrow> cache_coherent codec dflt (snd (getChangeCount d))"
  by (simp add: cache_coherent_def cache_hit_getChangeCount getChangeCount_snd_cache
      Data_fields_getChangeCount)

lemma cache_coherent_getDefaultWireEncoding:
  assumes "cache_coherent codec dflt d"
  shows "cache_coherent codec dflt (snd (getDefaultWireEncoding d))"
proof (cases "getDefaultWireEncodingChangeCount d \<noteq> fst (getChangeCount d)")
  case True
  then show ?thesis
    by (simp add: getDefaultWireEncoding_expl cache_coherent_def cache_hit_def)
next
  case False
  then show ?thesis
    using cache_coherent_getChangeCount[OF assms] by (simp add: getDefaultWireEncoding_expl)
qed

lemma cache_hit_setDefaultWireEncoding:
  "cache_hit fmt (setDefaultWireEncoding d enc fmt') = (\<not> isNull enc \<and> fmt' = Some fmt)"
  by (simp add: cache_hit_def setDefaultWireEncoding_sel getChangeCount_setDefaultWireEncoding)

lemma cache_coherent_setDefaultWireEncoding:
  "cache_coherent codec dflt (setDefaultWireEncoding d enc fmt') =
     (\<not> isNull enc \<and> fmt' = Some dflt \<longrightarrow>
        decodes_to codec dflt (Blob_buf (blob enc)) (Data_fields d))"
  by (simp add: cache_coherent_def cache_hit_setDefaultWireEncoding setDefaultWireEncoding_sel
      Data_fields_setDefaultWireEncoding)

lemma decode_inverts_encodeD:
  "decode_inverts_encode codec fmt \<Longrightarrow> encodeData codec fmt f = Inr (bs, b, e) \<Longrightarrow>
   decodes_to codec fmt (Some bs) f"
  unfolding decode_inverts_encode_def by blast

lemma cache_coherent_wireEncode:
  assumes "decode_inverts_encode codec dflt" and "cache_coherent codec dflt d"
  shows "cache_coherent codec dflt (fst (snd (wireEncode codec dflt d fmt)))"
proof (cases "cache_hit fmt d")
  case True
  then show ?thesis
    using cache_coherent_getChangeCount[OF assms(2)] by (simp add: wireEncode_expl)
next
  case miss: False
  note g = cache_coherent_getDefaultWireEncoding[OF assms(2)]
  show ?thesis
  proof (cases "encodeData codec fmt (Data_fields d)")
    case (Inl err)
    with miss g show ?thesis by (simp add: wireEncode_expl)
  next
    case (Inr r)
    obtain bs b e where r: "r = (bs, b, e)" by (cases r)
    show ?thesis
    proof (cases "fmt = dflt")
      case True
      with Inr r have "encodeData codec dflt (Data_fields d) = Inr (bs, b, e)" by simp
      with assms(1) have "decodes_to codec dflt (Some bs) (Data_fields d)"
        by (rule decode_inverts_encodeD)
      with miss Inr r True show ?thesis
        by (simp add: wireEncode_expl cache_coherent_setDefaultWireEncoding
            Data_fields_getDefaultWireEncoding SignedBlob_ctor_def Blob_buf_def)
    next
      case False
      with miss Inr r g show ?thesis by (simp add: wireEncode_expl)
    qed
  qed
qed

lemma cache_coherent_wireDecode:
  assumes "counters_ordered dflt d" and "cache_coherent codec dflt d"
  shows "cache_coherent codec dflt (snd (wireDecode codec dflt d input fmt))"
proof (cases "decodeData codec fmt (Blob_buf (Blob_ctor input True))")
  case (Inl failure)
  obtain partial err where "failure = (partial, err)" by (cases failure)
  with Inl show ?thesis
    using cache_coherent_foldl_applyMutation[OF assms] by (simp add: wireDecode_expl)
next
  case (Inr r)
  obtain decoded b e where r: "r = (decoded, b, e)" by (cases r)
  show ?thesis
  proof (cases "fmt = dflt")
    case True
    with Inr r have "decodes_to codec dflt (Blob_buf (Blob_ctor input True)) decoded"
      by (simp add: decodes_to_def)
    with Inr r True show ?thesis
      by (simp add: wireDecode_expl cache_coherent_setDefaultWireEncoding Data_fields_populate
          SignedBlob_ctor_def)
  next
    case False
    with Inr r show ?thesis
      by (simp add: wireDecode_expl cache_coherent_setDefaultWireEncoding isNull_def
          SignedBlob_null_def SignedBlob_ctor_def)
  qed
qed

lemma cache_coherent_call:
  assumes "decode_inverts_encode codec dflt"
    and "counters_ordered dflt d" and "cache_coherent codec dflt d"
  shows "cache_coherent codec dflt (call codec dflt d c)"
proof (cases c)
  case (Mutation m)
  with assms(2) show ?thesis by (simp add: cache_coherent_applyMutation)
next
  case GetChangeCount
  with assms(3) show ?thesis by (simp add: cache_coherent_getChangeCount)
next
  case GetDefaultWireEncoding
  with assms(3) show ?thesis by (simp add: cache_coherent_getDefaultWireEncoding)
next
  case (WireEncode fmt)
  with assms(1,3) show ?thesis by (simp add: cache_coherent_wireEncode)
next
  case (WireDecode input fmt)
  with assms(2,3) show ?thesis by (simp add: cache_coherent_wireDecode)
qed

lemma cache_coherent_calls:
  assumes "decode_inverts_encode codec dflt"
  shows "counters_ordered dflt d \<Longrightarrow> cache_coherent codec dflt d \<Longrightarrow>
         cache_coherent codec dflt (calls codec dflt d cs)"
  unfolding calls_def
proof (induction cs arbitrary: d)
  case Nil
  then show ?case by simp
next
  case (Cons c cs)
  have "counters_ordered dflt (call codec dflt d c)"
    using Cons.prems(1) by (rule counters_ordered_call)
  moreover have "cache_coherent codec dflt (call codec dflt d c)"
    using assms Cons.prems by (rule cache_coherent_call)
  ultimately show ?case using Cons.IH by simp
qed

lemma cache_coherent_init: "cache_coherent codec dflt (Data_init nm)"
  by (simp add: cache_coherent_def cache_hit_def Data_init_def isNull_def SignedBlob_null_def
      SignedBlob_ctor_def)

lemma cache_coherent_reachable:
  "decode_inverts_encode codec dflt \<Longrightarrow>
   cache_coherent codec dflt (calls codec dflt (Data_init nm) cs)"
  by (simp add: cache_coherent_calls counters_ordered_init cache_coherent_init)

text \<open>
  C9: let \<open>P\<close> be any packet reached from the constructor through the calls, and let
  \<open>wireEncode\<close> on \<open>P\<close> with a format whose decoder inverts its encoder return an encoding
  (freshly built or taken from the cache). Then \<open>wireDecode\<close> of that encoding into a new
  packet with the same format returns, and the new packet has the name components, the
  metadata values and the content of \<open>P\<close>; encoding did not change them in \<open>P\<close> either.
\<close>

theorem wireDecode_wireEncode_roundtrip:
  assumes contract: "decode_inverts_encode codec fmt"
    and reach: "P = calls codec dflt (Data_init nm) cs"
    and enc: "wireEncode codec dflt P fmt = (Inr encoding, P', k)"
  shows "fst (wireDecode codec dflt (Data_init nm') (IsBlob (blob encoding)) fmt) = Inr () \<and>
         Data_fields (snd (wireDecode codec dflt (Data_init nm') (IsBlob (blob encoding)) fmt))
           = Data_fields P \<and>
         Data_fields P' = Data_fields P"
proof -
  have co: "counters_ordered dflt P"
    unfolding reach by (rule counters_ordered_reachable)
  have dec: "decodes_to codec fmt (Blob_buf (blob encoding)) (Data_fields P)"
  proof (cases "cache_hit fmt P")
    case True
    then have "defaultWireEncodingFormat P = Some fmt" by (simp add: cache_hit_def)
    with co have eq: "fmt = dflt" by (auto simp add: counters_ordered_def)
    have "cache_coherent codec dflt P"
      unfolding reach using contract eq by (simp add: cache_coherent_reachable)
    moreover have "encoding = defaultWireEncoding P"
      using enc True by (simp add: wireEncode_expl)
    ultimately show ?thesis using True eq by (simp add: cache_coherent_def)
  next
    case False
    with enc obtain bs b e where
      e: "encodeData codec fmt (Data_fields P) = Inr (bs, b, e)"
      and r: "encoding = SignedBlob_ctor (Some (Owned bs)) b e"
      by (auto simp add: wireEncode_expl split: sum.splits)
    from contract e have "decodes_to codec fmt (Some bs) (Data_fields P)"
      by (rule decode_inverts_encodeD)
    with r show ?thesis by (simp add: SignedBlob_ctor_def Blob_buf_def)
  qed
  then obtain b e where
    d: "decodeData codec fmt (Blob_buf (Blob_ctor (IsBlob (blob encoding)) True))
          = Inr (Data_fields P, b, e)"
    by (auto simp add: decodes_to_def split: sum.splits)
  have p: "Data_fields P' = Data_fields P"
    using enc
    by (auto simp add: wireEncode_expl Data_fields_getChangeCount
        Data_fields_getDefaultWireEncoding Data_fields_setDefaultWireEncoding
        split: if_splits sum.splits)
  show ?thesis
    using d p
    by (simp add: wireDecode_expl Data_fields_setDefaultWireEncoding Data_fields_populate)
qed

lemma testCodec_decode_inverts_encode: "decode_inverts_encode testCodec fmt"
  by (auto simp add: decode_inverts_encode_def decodes_to_def testCodec_def
      split: option.splits if_splits)

lemma helloPacket_calls:
  "helloPacket = calls testCodec 0 (Data_init (NotName [])) [Mutation (SetContent (IsArray 7 hello))]"
  by (simp add: calls_def helloPacket_def)

theorem wireDecode_wireEncode_roundtrip_witness:
  "decode_inverts_encode testCodec 1 \<and>
   fst (wireEncode testCodec 0 helloPacket 1) = Inr (SignedBlob_ctor (Some (Owned (rev hello))) 0 5) \<and>
   fst (wireDecode testCodec 0 (Data_init (NotName [''x''])) (IsBlob (Some (Owned (rev hello)))) 1)
     = Inr () \<and>
   Data_fields (snd (wireDecode testCodec 0 (Data_init (NotName [''x'']))
     (IsBlob (Some (Owned (rev hello)))) 1)) = ([], (0, None), Some hello) \<and>
   Data_fields helloPacket = ([], (0, None), Some hello)"
proof -
  have f: "Data_fields helloPacket = ([], (0, None), Some hello)"
    by (simp add: eval_defs)
  have h: "fst (wireEncode testCodec 0 helloPacket 1) = Inr (SignedBlob_ctor (Some (Owned (rev hello))) 0 5)"
    by (simp add: eval_defs)
  then have e: "wireEncode testCodec 0 helloPacket 1 =
      (Inr (SignedBlob_ctor (Some (Owned (rev hello))) 0 5), fst (snd (wireEncode testCodec 0 helloPacket 1)),
       snd (snd (wireEncode testCodec 0 helloPacket 1)))"
    by (metis prod.collapse)
  have b: "blob (SignedBlob_ctor (Some (Owned (rev hello))) 0 5) = Some (Owned (rev hello))"
    by (simp add: SignedBlob_ctor_def)
  show ?thesis
    using wireDecode_wireEncode_roundtrip
            [OF testCodec_decode_inverts_encode helloPacket_calls e, of "NotName [''x'']"]
          testCodec_decode_inverts_encode[of 1] f h
    unfolding b by simp
qed

end
